theory Spec2Isabelle
  imports Complex_Main "HOL-Library.Multiset" "HOL-Library.Product_Lexorder"
begin

section \<open>LefCoin sentiment oracle: aggregation and submission engine\<close>

text \<open>
  A shallow embedding of \<^verbatim>\<open>src/oracle/sentiment_pipeline.py\<close>. Python's unbounded
  \<^verbatim>\<open>int\<close> is \<^typ>\<open>int\<close>. Python's \<^verbatim>\<open>float\<close> is an IEEE 754 double, modelled with its
  rounding, its infinities and its NaN. Python's \<^verbatim>\<open>str\<close> is
  \<^typ>\<open>string\<close>, a \<^typ>\<open>char\<close> standing for the code point of the same number (0 to 255).
  Isabelle identifiers cannot start with an underscore, so \<^verbatim>\<open>_blend\<close> is \<open>blend\<close>,
  \<^verbatim>\<open>_safe_fetch\<close> is \<open>safe_fetch\<close>, and so on.
\<close>

subsection \<open>Exceptions\<close>

text \<open>
  A raised exception, with the text \<^verbatim>\<open>str(e)\<close>. The handlers of the program
  distinguish three classes only: \<^verbatim>\<open>ImportError\<close> (and its subclasses), any other
  instance of \<^verbatim>\<open>Exception\<close>, and an instance of \<^verbatim>\<open>BaseException\<close> that is not
  an \<^verbatim>\<open>Exception\<close> (\<^verbatim>\<open>KeyboardInterrupt\<close>, \<^verbatim>\<open>SystemExit\<close>, \<^verbatim>\<open>GeneratorExit\<close>).
\<close>

datatype exn = ImportError string | Exception string | BaseException string

fun str_exn :: "exn \<Rightarrow> string" where
  "str_exn (ImportError m) = m"
| "str_exn (Exception m) = m"
| "str_exn (BaseException m) = m"

text \<open>\<^verbatim>\<open>isinstance(e, Exception)\<close>: what \<^verbatim>\<open>except Exception\<close> catches.\<close>

fun is_Exception :: "exn \<Rightarrow> bool" where
  "is_Exception (ImportError m) = True"
| "is_Exception (Exception m) = True"
| "is_Exception (BaseException m) = False"

fun is_ImportError :: "exn \<Rightarrow> bool" where
  "is_ImportError (ImportError m) = True"
| "is_ImportError (Exception m) = False"
| "is_ImportError (BaseException m) = False"

subsection \<open>Floats\<close>

text \<open>
  A Python \<^verbatim>\<open>float\<close> is an IEEE 754 binary64 number. A finite one is modelled by the
  real number it denotes, the two zeros by the one real zero (no operation of the
  modelled functions tells them apart: they compare equal, \<^verbatim>\<open>int\<close> maps both to 0, and
  no float is divided by a float here).
\<close>

datatype pyfloat = Finite real | PosInf | NegInf | NaN

text \<open>Rounding to the nearest integer, a half to the even neighbour.\<close>

definition round_half_even :: "real \<Rightarrow> int" where
  "round_half_even x =
     (let f = \<lfloor>x\<rfloor>; d = x - of_int f
      in if d < 1 / 2 then f else if 1 / 2 < d then f + 1 else if even f then f else f + 1)"

text \<open>
  The exponent of the binade of a non-negative real: the largest \<open>e\<close> from -1022 to 1024
  with \<open>2 ^ e \<le> a\<close>, and -1022 (the exponent of the subnormal numbers) when there is
  none. The search runs downward from 1024.
\<close>

fun expo_from :: "nat \<Rightarrow> real \<Rightarrow> int" where
  "expo_from 0 a = -1022"
| "expo_from (Suc k) a =
     (if 2 powi (int (Suc k) - 1022) \<le> a then int (Suc k) - 1022 else expo_from k a)"

definition expo :: "real \<Rightarrow> int" where
  "expo a = expo_from 2046 a"

text \<open>
  The rounding every arithmetic operation ends with: the multiple of the unit in the last
  place (53 significant bits) nearest to the exact result, ties to the even multiple, and
  an infinity when that is \<open>2 ^ 1024\<close> or more in magnitude. It is also the value of a
  decimal literal and of the true division of two integers.
\<close>

definition fl :: "real \<Rightarrow> pyfloat" where
  "fl x =
     (let ulp = 2 powi (expo \<bar>x\<bar> - 52);
          y = of_int (round_half_even (x / ulp)) * ulp
      in if 2 powi 1024 \<le> y then PosInf
         else if y \<le> - (2 powi 1024) then NegInf
         else Finite y)"

fun fneg :: "pyfloat \<Rightarrow> pyfloat" where
  "fneg (Finite x) = Finite (- x)"
| "fneg PosInf = NegInf"
| "fneg NegInf = PosInf"
| "fneg NaN = NaN"

fun fabs :: "pyfloat \<Rightarrow> pyfloat" where
  "fabs (Finite x) = Finite \<bar>x\<bar>"
| "fabs PosInf = PosInf"
| "fabs NegInf = PosInf"
| "fabs NaN = NaN"

text \<open>\<^verbatim>\<open>a + b\<close>, \<^verbatim>\<open>a - b\<close> and \<^verbatim>\<open>a * b\<close> on floats.\<close>

fun fadd :: "pyfloat \<Rightarrow> pyfloat \<Rightarrow> pyfloat" where
  "fadd (Finite x) (Finite y) = fl (x + y)"
| "fadd NaN b = NaN"
| "fadd a NaN = NaN"
| "fadd PosInf NegInf = NaN"
| "fadd NegInf PosInf = NaN"
| "fadd PosInf b = PosInf"
| "fadd NegInf b = NegInf"
| "fadd (Finite x) b = b"

definition fsub :: "pyfloat \<Rightarrow> pyfloat \<Rightarrow> pyfloat" where
  "fsub a b = fadd a (fneg b)"

fun fmul :: "pyfloat \<Rightarrow> pyfloat \<Rightarrow> pyfloat" where
  "fmul (Finite x) (Finite y) = fl (x * y)"
| "fmul NaN b = NaN"
| "fmul a NaN = NaN"
| "fmul (Finite x) b = (if x = 0 then NaN else if 0 < x then b else fneg b)"
| "fmul a (Finite y) = (if y = 0 then NaN else if 0 < y then a else fneg a)"
| "fmul PosInf b = b"
| "fmul NegInf b = fneg b"

text \<open>
  \<^verbatim>\<open>a / d\<close> for a float \<open>a\<close> and a divisor that is a finite number other than 0: the
  divisors of the modelled functions are the length of a non-empty list and the
  constant \<^verbatim>\<open>100.0\<close>, both converted to a float without rounding.
\<close>

fun fdiv :: "pyfloat \<Rightarrow> real \<Rightarrow> pyfloat" where
  "fdiv (Finite x) d = fl (x / d)"
| "fdiv NaN d = NaN"
| "fdiv PosInf d = (if 0 < d then PosInf else NegInf)"
| "fdiv NegInf d = (if 0 < d then NegInf else PosInf)"

text \<open>\<^verbatim>\<open>a < b\<close> and \<^verbatim>\<open>a >= b\<close> on floats: false when either side is not a number.\<close>

fun flt :: "pyfloat \<Rightarrow> pyfloat \<Rightarrow> bool" where
  "flt (Finite x) (Finite y) = (x < y)"
| "flt NaN b = False"
| "flt a NaN = False"
| "flt a NegInf = False"
| "flt PosInf b = False"
| "flt NegInf b = True"
| "flt (Finite x) PosInf = True"

fun fge :: "pyfloat \<Rightarrow> pyfloat \<Rightarrow> bool" where
  "fge NaN b = False"
| "fge a NaN = False"
| "fge a b = (\<not> flt a b)"

text \<open>
  \<^verbatim>\<open>min(a, b)\<close> and \<^verbatim>\<open>max(a, b)\<close>: the first argument, unless the second is smaller
  (larger).
\<close>

definition py_min :: "pyfloat \<Rightarrow> pyfloat \<Rightarrow> pyfloat" where
  "py_min a b = (if flt b a then b else a)"

definition py_max :: "pyfloat \<Rightarrow> pyfloat \<Rightarrow> pyfloat" where
  "py_max a b = (if flt a b then b else a)"

text \<open>
  \<^verbatim>\<open>int(x)\<close> of a float: truncation toward zero; an infinity raises
  \<^verbatim>\<open>OverflowError\<close> and a NaN raises \<^verbatim>\<open>ValueError\<close>.
\<close>

fun int_of_float :: "pyfloat \<Rightarrow> exn + int" where
  "int_of_float (Finite x) = Inr (if 0 \<le> x then \<lfloor>x\<rfloor> else \<lceil>x\<rceil>)"
| "int_of_float PosInf = Inl (Exception ''cannot convert float infinity to integer'')"
| "int_of_float NegInf = Inl (Exception ''cannot convert float infinity to integer'')"
| "int_of_float NaN = Inl (Exception ''cannot convert float NaN to integer'')"

text \<open>
  The built-in \<^verbatim>\<open>sum\<close> on a non-empty list of floats, with its start value, the
  integer 0. The source does not fix the interpreter, and the interpreters differ:
  CPython up to 3.11 adds from left to right, CPython from 3.12 on adds with Neumaier's
  compensation. The Blender therefore takes the summation as a parameter; both are
  defined here.
\<close>

type_synonym float_sum = "pyfloat list \<Rightarrow> pyfloat"

definition sum_left :: float_sum where
  "sum_left xs = foldl fadd (Finite 0) xs"

definition neumaier_step :: "pyfloat \<times> pyfloat \<Rightarrow> pyfloat \<Rightarrow> pyfloat \<times> pyfloat" where
  "neumaier_step fc x =
     (let f = fst fc; c = snd fc; t = fadd f x
      in (t, fadd c (if fge (fabs f) (fabs x) then fadd (fsub f t) x
                     else fadd (fsub x t) f)))"

fun sum_neumaier :: float_sum where
  "sum_neumaier [] = Finite 0"
| "sum_neumaier (x # xs) =
     (let fc = foldl neumaier_step (fadd (Finite 0) x, Finite 0) xs;
          f = fst fc; c = snd fc
      in case c of
           Finite v \<Rightarrow> (if v \<noteq> 0 then fadd f c else f)
         | PosInf \<Rightarrow> f
         | NegInf \<Rightarrow> f
         | NaN \<Rightarrow> f)"

subsection \<open>Configuration\<close>

record Config =
  rpc_url :: string
  oracle_address :: string
  reporter_private_key :: string
  newsapi_key :: string
  twitter_bearer_token :: string
  serper_api_key :: string
  reddit_client_id :: string
  reddit_client_secret :: string
  youtube_api_key :: string
  aqicn_token :: string
  update_interval_hours :: int
  use_local_llm :: bool
  local_llm_endpoint :: string

text \<open>\<^verbatim>\<open>Config.available_sources\<close>: a non-empty key is truthy.\<close>

definition available_sources :: "Config \<Rightarrow> string list" where
  "available_sources config =
     [''gdelt'', ''open_meteo'', ''carbon_intensity'', ''hedonometer'',
      ''disease_sh'', ''world_bank'', ''reliefweb'',
      ''gbif_bees'', ''inaturalist_bees'', ''faostat_bees'',
      ''global_forest_watch'',
      ''who_gho'', ''un_sdg'']
     @ (if newsapi_key config \<noteq> [] then [''newsapi''] else [])
     @ (if twitter_bearer_token config \<noteq> [] then [''twitter''] else [])
     @ (if serper_api_key config \<noteq> [] then [''serper''] else [])
     @ (if reddit_client_id config \<noteq> [] \<and> reddit_client_secret config \<noteq> []
        then [''reddit''] else [])
     @ (if youtube_api_key config \<noteq> [] then [''youtube''] else [])
     @ (if aqicn_token config \<noteq> [] then [''aqicn''] else [])"

subsection \<open>SourceResult\<close>

text \<open>
  The fields of \<^verbatim>\<open>class SourceResult\<close>, prefixed with \<open>sr_\<close> (the bare names
  \<open>scores\<close>, \<open>count\<close> and \<open>error\<close> are needed for variables and library constants).
  \<^verbatim>\<open>error\<close> is \<^verbatim>\<open>None\<close> or a string.
\<close>

record SourceResult =
  sr_name :: string
  sr_texts :: "string list"
  sr_scores :: "pyfloat list"
  sr_count :: int
  sr_error :: "string option"

text \<open>
  \<^verbatim>\<open>x or []\<close> for an optional list argument: \<^verbatim>\<open>None\<close> and the empty list are both
  falsy and give \<^verbatim>\<open>[]\<close>.
\<close>

definition or_empty :: "'a list option \<Rightarrow> 'a list" where
  "or_empty x = (case x of None \<Rightarrow> [] | Some l \<Rightarrow> l)"

text \<open>
  \<^verbatim>\<open>SourceResult.__init__(name, texts=None, scores=None, count=0, error=None)\<close>.
  An argument the caller leaves out is \<open>None\<close> here; for \<^verbatim>\<open>count\<close> the default \<^verbatim>\<open>0\<close>
  is then taken. \<^verbatim>\<open>count or n\<close> is \<^verbatim>\<open>n\<close> when \<^verbatim>\<open>count\<close> is \<^verbatim>\<open>0\<close>.
\<close>

definition SourceResult_init ::
  "string \<Rightarrow> string list option \<Rightarrow> pyfloat list option \<Rightarrow> int option \<Rightarrow> string option
     \<Rightarrow> SourceResult" where
  "SourceResult_init nm txts scs cnt err =
     (let t = or_empty txts;
          s = or_empty scs;
          c = (case cnt of None \<Rightarrow> 0 | Some k \<Rightarrow> k)
      in \<lparr>sr_name = nm, sr_texts = t, sr_scores = s,
          sr_count = (if c \<noteq> 0 then c else int (length t) + int (length s)),
          sr_error = err\<rparr>)"

definition has_data :: "SourceResult \<Rightarrow> bool" where
  "has_data r = (sr_texts r \<noteq> [] \<or> sr_scores r \<noteq> [])"

subsection \<open>Log\<close>

text \<open>
  The lines the program writes to its logger, one constructor per format string of the
  modelled functions, carrying the values the format string interpolates (the
  transaction hash of the confirmation line is left out).
\<close>

datatype log_line =
    WarnSourceFailed string string
  | InfoDryRunHeader
  | InfoScore string int
  | InfoSubmitting string int
  | InfoUpdated string
  | ErrorWeb3Missing
  | ErrorSubmissionFailed string
  | InfoNotSubmittedHeader
  | InfoComposite int
  | InfoSubmittingToOracle
  | InfoDryRunNotSubmitting
  | InfoCycleComplete

subsection \<open>Failure isolation of adapters\<close>

text \<open>
  \<^verbatim>\<open>_safe_fetch(name, fn, *args, **kwargs)\<close>. The adapter call \<^verbatim>\<open>fn(*args, **kwargs)\<close>
  is a function of its arguments that returns a result or raises (\<open>Inl\<close>). The wrapper
  returns the result, or the exception that passes \<^verbatim>\<open>except Exception\<close>, and the
  warning it logged.
\<close>

definition safe_fetch ::
  "string \<Rightarrow> ('a \<Rightarrow> exn + SourceResult) \<Rightarrow> 'a \<Rightarrow> (exn + SourceResult) \<times> log_line list" where
  "safe_fetch nm fn args =
     (case fn args of
        Inr r \<Rightarrow> (Inr r, [])
      | Inl e \<Rightarrow>
          if is_Exception e
          then (Inr (SourceResult_init nm None None None (Some (str_exn e))),
                [WarnSourceFailed nm (str_exn e)])
          else (Inl e, []))"

subsection \<open>Text scorer\<close>

definition POSITIVE :: "string list" where
  "POSITIVE =
     [''peace'', ''treaty'', ''agreement'', ''cooperation'', ''aid'', ''donation'',
      ''charity'', ''volunteer'', ''love'', ''hope'', ''growth'', ''recovery'',
      ''sustainable'', ''renewable'', ''conservation'', ''health'', ''education'',
      ''community'', ''celebrate'', ''progress'', ''breakthrough'', ''success'',
      ''kindness'', ''generosity'', ''innovation'', ''clean'', ''protect'',
      ''harmony'', ''prosperity'', ''freedom'', ''justice'', ''wellness'',
      ''solar'', ''wind'', ''recycle'', ''restore'', ''thrive'', ''flourish'',
      ''unity'', ''solidarity'', ''empower'', ''uplift'', ''heal'', ''cure'',
      ''vaccine'', ''immunize'', ''literacy'', ''graduate'', ''scholarship'',
      ''refuge'', ''rescue'', ''rebuild'', ''resilient'', ''champion'']"

definition NEGATIVE :: "string list" where
  "NEGATIVE =
     [''war'', ''conflict'', ''attack'', ''violence'', ''crisis'', ''disaster'',
      ''pollution'', ''destruction'', ''poverty'', ''disease'', ''corruption'',
      ''fraud'', ''collapse'', ''threat'', ''bomb'', ''death'', ''famine'',
      ''drought'', ''extinction'', ''inequality'', ''injustice'', ''abuse'',
      ''terror'', ''missile'', ''siege'', ''casualty'', ''pandemic'',
      ''contamination'', ''deforestation'', ''toxic'', ''smog'', ''flood'',
      ''earthquake'', ''hurricane'', ''wildfire'', ''genocide'', ''massacre'',
      ''recession'', ''unemployment'', ''homelessness'', ''overdose'',
      ''trafficking'', ''exploit'', ''embargo'', ''sanction'', ''airstrike'']"

text \<open>\<^verbatim>\<open>str.lower()\<close> on the code points below 256.\<close>

definition lower_char :: "char \<Rightarrow> char" where
  "lower_char c =
     (let n = (of_char c :: nat)
      in if (65 \<le> n \<and> n \<le> 90) \<or> (192 \<le> n \<and> n \<le> 222 \<and> n \<noteq> 215)
         then char_of (n + 32) else c)"

definition lower :: "string \<Rightarrow> string" where
  "lower s = map lower_char s"

text \<open>The white space of \<^verbatim>\<open>str.split()\<close> among the code points below 256.\<close>

definition is_space :: "char \<Rightarrow> bool" where
  "is_space c =
     ((of_char c :: nat) \<in> {9, 10, 11, 12, 13, 28, 29, 30, 31, 32, 133, 160})"

text \<open>
  \<^verbatim>\<open>str.split()\<close> without arguments: the maximal runs of characters that are not
  white space. The first argument is the word read so far.
\<close>

fun split_from :: "string \<Rightarrow> string \<Rightarrow> string list" where
  "split_from w [] = (if w = [] then [] else [w])"
| "split_from w (c # cs) =
     (if is_space c
      then (if w = [] then split_from [] cs else w # split_from [] cs)
      else split_from (w @ [c]) cs)"

definition split :: "string \<Rightarrow> string list" where
  "split s = split_from [] s"

text \<open>\<^verbatim>\<open>str.strip(chars)\<close>: drops leading and trailing characters that are in \<open>chars\<close>.\<close>

definition strip :: "string \<Rightarrow> string \<Rightarrow> string" where
  "strip chars s =
     rev (dropWhile (\<lambda>c. c \<in> set chars) (rev (dropWhile (\<lambda>c. c \<in> set chars) s)))"

text \<open>The argument of \<^verbatim>\<open>word.strip(".,!?;:'\"()-[]")\<close>.\<close>

definition PUNCTUATION :: string where
  "PUNCTUATION =
     [CHR ''.'', CHR '','', CHR ''!'', CHR ''?'', CHR '';'', CHR '':'', CHR 0x27, CHR 0x22,
      CHR ''('', CHR '')'', CHR ''-'', CHR ''['', CHR '']'']"

text \<open>
  \<^verbatim>\<open>_analyze_keyword\<close>: the body of the inner loop on the counters \<open>(pos, neg)\<close>, the
  inner loop over the words of one text, the outer loop over the texts.
\<close>

definition count_word :: "nat \<times> nat \<Rightarrow> string \<Rightarrow> nat \<times> nat" where
  "count_word pn word =
     (let w = strip PUNCTUATION word
      in if w \<in> set POSITIVE then (fst pn + 1, snd pn)
         else if w \<in> set NEGATIVE then (fst pn, snd pn + 1)
         else pn)"

definition count_text :: "nat \<times> nat \<Rightarrow> string \<Rightarrow> nat \<times> nat" where
  "count_text pn text = foldl count_word pn (split (lower text))"

definition analyze_keyword :: "string list \<Rightarrow> pyfloat" where
  "analyze_keyword txts =
     (let pn = foldl count_text (0, 0) txts;
          pos = fst pn;
          neg = snd pn
      in if pos + neg = 0 then Finite (1 / 2) else fl (real pos / real (pos + neg)))"

text \<open>
  \<^verbatim>\<open>_analyze_llm\<close>. The remote endpoint is outside the program: \<open>llm\<close> maps what the
  request carries (the first 50 texts cut to 200 characters, and the context) to the
  float parsed from the reply, or to \<open>None\<close> when the request or the parsing raises,
  which the \<^verbatim>\<open>except Exception\<close> of the function turns into \<^verbatim>\<open>None\<close>.
\<close>

type_synonym llm = "string list \<Rightarrow> string \<Rightarrow> pyfloat option"

definition analyze_llm :: "llm \<Rightarrow> string list \<Rightarrow> string \<Rightarrow> pyfloat option" where
  "analyze_llm remote txts context =
     (case remote (map (take 200) (take 50 txts)) context of
        None \<Rightarrow> None
      | Some num \<Rightarrow> Some (py_max (Finite 0) (py_min (Finite 1) (fdiv num 100))))"

text \<open>\<^verbatim>\<open>SentimentAnalyzer.analyze\<close>.\<close>

definition analyze :: "Config \<Rightarrow> llm \<Rightarrow> string list \<Rightarrow> string \<Rightarrow> pyfloat" where
  "analyze config remote txts context =
     (if txts = [] then Finite (1 / 2)
      else if use_local_llm config
      then (case analyze_llm remote txts context of
              Some score \<Rightarrow> score
            | None \<Rightarrow> analyze_keyword txts)
      else analyze_keyword txts)"

subsection \<open>Blender\<close>

text \<open>
  One value of the dictionary \<^verbatim>\<open>source_meta\<close>: a dictionary itself, with the keys
  \<^verbatim>\<open>"status"\<close>, \<^verbatim>\<open>"error"\<close>, \<^verbatim>\<open>"texts"\<close> and \<^verbatim>\<open>"scores"\<close>, each present or not.
\<close>

record meta_entry =
  me_status :: "string option"
  me_error :: "string option"
  me_texts :: "nat option"
  me_scores :: "nat option"

definition empty_entry :: meta_entry where
  "empty_entry = \<lparr>me_status = None, me_error = None, me_texts = None, me_scores = None\<rparr>"

type_synonym source_meta = "string \<rightharpoonup> meta_entry"

text \<open>The truth value of \<^verbatim>\<open>r.error\<close>: \<^verbatim>\<open>None\<close> and the empty string are falsy.\<close>

definition truthy :: "string option \<Rightarrow> bool" where
  "truthy e = (case e of None \<Rightarrow> False | Some m \<Rightarrow> m \<noteq> [])"

text \<open>The three local variables the loop of \<^verbatim>\<open>_blend\<close> updates.\<close>

record blend_state =
  all_texts :: "string list"
  all_scores :: "pyfloat list"
  meta :: source_meta

definition blend_init :: blend_state where
  "blend_init = \<lparr>all_texts = [], all_scores = [], meta = Map.empty\<rparr>"

text \<open>The body of \<^verbatim>\<open>for r in results\<close>.\<close>

definition blend_step :: "blend_state \<Rightarrow> SourceResult \<Rightarrow> blend_state" where
  "blend_step st r =
     (if truthy (sr_error r)
      then st\<lparr>meta := (meta st)(sr_name r \<mapsto>
                 \<lparr>me_status = Some ''error'', me_error = sr_error r,
                  me_texts = None, me_scores = None\<rparr>)\<rparr>
      else
        let st1 =
              (if sr_texts r \<noteq> []
               then st\<lparr>all_texts := all_texts st @ sr_texts r,
                       meta := (meta st)(sr_name r \<mapsto>
                         \<lparr>me_status = Some ''ok'', me_error = None,
                          me_texts = Some (length (sr_texts r)), me_scores = None\<rparr>)\<rparr>
               else st)
        in if sr_scores r \<noteq> []
           then st1\<lparr>all_scores := all_scores st1 @ sr_scores r,
                    meta := (meta st1)(sr_name r \<mapsto>
                      (case meta st1 (sr_name r) of None \<Rightarrow> empty_entry | Some e \<Rightarrow> e)
                        \<lparr>me_status := Some ''ok'',
                         me_scores := Some (length (sr_scores r))\<rparr>)\<rparr>
           else st1)"

definition blend_loop :: "SourceResult list \<Rightarrow> blend_state" where
  "blend_loop results = foldl blend_step blend_init results"

text \<open>
  The value of \<^verbatim>\<open>blended\<close>, from \<^verbatim>\<open>text_score\<close> and \<^verbatim>\<open>numeric_score\<close>
  (\<open>None\<close> where the list is empty). \<open>fsum\<close> is the built-in \<^verbatim>\<open>sum\<close>; the literals
  \<^verbatim>\<open>0.6\<close> and \<^verbatim>\<open>0.4\<close> are the floats nearest to 6/10 and 4/10.
\<close>

definition blended ::
  "Config \<Rightarrow> llm \<Rightarrow> float_sum \<Rightarrow> string list \<Rightarrow> pyfloat list \<Rightarrow> string \<Rightarrow> pyfloat" where
  "blended config remote fsum txts scs context =
     (let text_score = (if txts \<noteq> [] then Some (analyze config remote txts context) else None);
          numeric_score = (if scs \<noteq> [] then Some (fdiv (fsum scs) (real (length scs))) else None)
      in case (text_score, numeric_score) of
           (Some t, Some n) \<Rightarrow> fadd (fmul t (fl (6 / 10))) (fmul n (fl (4 / 10)))
         | (Some t, None) \<Rightarrow> t
         | (None, Some n) \<Rightarrow> n
         | (None, None) \<Rightarrow> Finite (1 / 2))"

text \<open>
  \<^verbatim>\<open>SubindexAggregator._blend(results, context)\<close>: the pair it returns, or the
  exception \<^verbatim>\<open>int(blended * 1000)\<close> raises.
\<close>

definition blend ::
  "Config \<Rightarrow> llm \<Rightarrow> float_sum \<Rightarrow> SourceResult list \<Rightarrow> string \<Rightarrow> exn + int \<times> source_meta" where
  "blend config remote fsum results context =
     (let st = blend_loop results
      in case int_of_float
                (fmul (blended config remote fsum (all_texts st) (all_scores st) context)
                      (Finite 1000)) of
           Inl e \<Rightarrow> Inl e
         | Inr score \<Rightarrow> Inr (score, meta st))"

text \<open>The score of the pair, or the exception.\<close>

definition score_of :: "exn + int \<times> source_meta \<Rightarrow> exn + int" where
  "score_of res = (case res of Inl e \<Rightarrow> Inl e | Inr p \<Rightarrow> Inr (fst p))"

subsection \<open>On-chain submission\<close>

text \<open>
  The chain client (the \<^verbatim>\<open>web3\<close> library and the node behind it) is outside the
  program. The model records every call the program makes to it, in order, and takes the
  client's behaviour as a parameter: which call raises what, given the calls made before
  it, and the transaction count of the account. \<open>ImportWeb3\<close> is \<^verbatim>\<open>from web3 import Web3\<close>, \<open>Connect\<close> is
  \<^verbatim>\<open>Web3(Web3.HTTPProvider(rpc_url))\<close>, \<open>Contract\<close> is \<^verbatim>\<open>to_checksum_address\<close> followed by
  \<^verbatim>\<open>w3.eth.contract\<close>; a transaction is identified by the arguments it was built from.
\<close>

record tx =
  tx_id :: int
  tx_score :: int
  tx_nonce :: int

datatype chain_call =
    ImportWeb3
  | Connect string
  | FromKey string
  | Contract string
  | GetTransactionCount
  | UpdateSubIndex int int
  | GasPrice
  | BuildTransaction tx
  | SignTransaction tx
  | SendRawTransaction tx
  | WaitForReceipt tx

record chain_client =
  raises :: "chain_call list \<Rightarrow> chain_call \<Rightarrow> exn option"
  transaction_count :: int

record submit_state =
  log_lines :: "log_line list"
  client_calls :: "chain_call list"

text \<open>
  A sequence of client calls inside the \<^verbatim>\<open>try\<close> block: each call is recorded, and the
  first one that raises ends the sequence with its exception.
\<close>

fun perform :: "chain_client \<Rightarrow> chain_call list \<Rightarrow> submit_state \<Rightarrow> exn option \<times> submit_state" where
  "perform ch [] st = (None, st)"
| "perform ch (c # cs) st =
     (case raises ch (client_calls st) c of
        Some e \<Rightarrow> (Some e, st\<lparr>client_calls := client_calls st @ [c]\<rparr>)
      | None \<Rightarrow> perform ch cs (st\<lparr>client_calls := client_calls st @ [c]\<rparr>))"

text \<open>A dictionary \<^verbatim>\<open>dict[int, int]\<close> is the list of its items, the keys distinct.\<close>

type_synonym scores_dict = "(int \<times> int) list"

definition dict_get :: "scores_dict \<Rightarrow> int \<Rightarrow> exn + int" where
  "dict_get d k = (case map_of d k of None \<Rightarrow> Inl (Exception ''KeyError'') | Some v \<Rightarrow> Inr v)"

definition names :: "string list" where
  "names = [''Global Peace'', ''Charitable Giving'', ''Social Sentiment'',
            ''Environmental Care'', ''Community Wellness'']"

text \<open>\<^verbatim>\<open>names[sid]\<close>: a negative index counts from the end, any other one raises.\<close>

definition names_at :: "int \<Rightarrow> exn + string" where
  "names_at i =
     (let n = int (length names); j = (if i < 0 then n + i else i)
      in if 0 \<le> j \<and> j < n then Inr (names ! nat j)
         else Inl (Exception ''list index out of range''))"

text \<open>
  The loop \<^verbatim>\<open>for sid, score in sorted(scores.items()): if sid < 5: log.info(...)\<close>, which
  the dry-run branch and \<^verbatim>\<open>_log_scores\<close> both run; the argument is the sorted list.
\<close>

fun log_each_score :: "scores_dict \<Rightarrow> submit_state \<Rightarrow> exn option \<times> submit_state" where
  "log_each_score [] st = (None, st)"
| "log_each_score ((sid, score) # rest) st =
     (if sid < 5
      then (case names_at sid of
              Inl e \<Rightarrow> (Some e, st)
            | Inr nm \<Rightarrow> log_each_score rest (st\<lparr>log_lines := log_lines st @ [InfoScore nm score]\<rparr>))
      else log_each_score rest st)"

text \<open>\<^verbatim>\<open>OracleSubmitter._log_scores\<close>.\<close>

definition log_scores :: "scores_dict \<Rightarrow> submit_state \<Rightarrow> exn option \<times> submit_state" where
  "log_scores scores st =
     log_each_score (sort scores) (st\<lparr>log_lines := log_lines st @ [InfoNotSubmittedHeader]\<rparr>)"

text \<open>
  The body of the loop \<^verbatim>\<open>for subindex_id in sorted(scores.keys())\<close> of the live branch,
  for a key below 5 and with the current nonce: the score is clamped, the line is
  logged, the transaction is built, signed and sent, the receipt is awaited, and the
  confirmation is logged. Each step can raise.
\<close>

definition submit_one ::
  "chain_client \<Rightarrow> scores_dict \<Rightarrow> int \<Rightarrow> int \<Rightarrow> submit_state \<Rightarrow> exn option \<times> submit_state" where
  "submit_one ch scores subindex_id nonce st =
     (case dict_get scores subindex_id of
        Inl e \<Rightarrow> (Some e, st)
      | Inr v \<Rightarrow>
          let score = max 0 (min 1000 v)
          in case names_at subindex_id of
               Inl e \<Rightarrow> (Some e, st)
             | Inr nm \<Rightarrow>
                 let t = \<lparr>tx_id = subindex_id, tx_score = score, tx_nonce = nonce\<rparr>
                 in case perform ch
                           [UpdateSubIndex subindex_id score, GasPrice, BuildTransaction t,
                            SignTransaction t, SendRawTransaction t, WaitForReceipt t]
                           (st\<lparr>log_lines := log_lines st @ [InfoSubmitting nm score]\<rparr>) of
                      (Some e, st') \<Rightarrow> (Some e, st')
                    | (None, st') \<Rightarrow>
                        (None, st'\<lparr>log_lines := log_lines st' @ [InfoUpdated nm]\<rparr>))"

text \<open>
  The loop itself; the list is what is left of the sorted keys. A key of 5 or more is
  passed over, the nonce goes up by one after each confirmed update, and an exception
  ends the loop.
\<close>

fun submit_loop ::
  "chain_client \<Rightarrow> scores_dict \<Rightarrow> int list \<Rightarrow> int \<Rightarrow> submit_state \<Rightarrow> exn option \<times> submit_state" where
  "submit_loop ch scores [] nonce st = (None, st)"
| "submit_loop ch scores (subindex_id # ids) nonce st =
     (if subindex_id \<ge> 5 then submit_loop ch scores ids nonce st
      else
        case submit_one ch scores subindex_id nonce st of
          (Some e, st') \<Rightarrow> (Some e, st')
        | (None, st') \<Rightarrow> submit_loop ch scores ids (nonce + 1) st')"

text \<open>The category a client call is about, if it is about one.\<close>

fun call_category :: "chain_call \<Rightarrow> int option" where
  "call_category (UpdateSubIndex i v) = Some i"
| "call_category (BuildTransaction t) = Some (tx_id t)"
| "call_category (SignTransaction t) = Some (tx_id t)"
| "call_category (SendRawTransaction t) = Some (tx_id t)"
| "call_category (WaitForReceipt t) = Some (tx_id t)"
| "call_category c = None"

text \<open>The body of the \<^verbatim>\<open>try\<close> block of \<^verbatim>\<open>submit_scores\<close>.\<close>

definition submit_try ::
  "Config \<Rightarrow> chain_client \<Rightarrow> scores_dict \<Rightarrow> submit_state \<Rightarrow> exn option \<times> submit_state" where
  "submit_try config ch scores st =
     (case perform ch
             [ImportWeb3, Connect (rpc_url config), FromKey (reporter_private_key config),
              Contract (oracle_address config), GetTransactionCount] st of
        (Some e, st') \<Rightarrow> (Some e, st')
      | (None, st') \<Rightarrow>
          submit_loop ch scores (sort (map fst scores)) (transaction_count ch) st')"

text \<open>
  \<^verbatim>\<open>OracleSubmitter.submit_scores(scores, dry_run)\<close>. The result is the exception that
  leaves the function, if any, and the log and client calls it has added. The traceback
  that the second handler prints to the standard error stream is not modelled.
\<close>

definition submit_scores ::
  "Config \<Rightarrow> chain_client \<Rightarrow> scores_dict \<Rightarrow> bool \<Rightarrow> submit_state \<Rightarrow> exn option \<times> submit_state" where
  "submit_scores config ch scores dry_run st =
     (if dry_run
      then log_each_score (sort scores) (st\<lparr>log_lines := log_lines st @ [InfoDryRunHeader]\<rparr>)
      else
        case submit_try config ch scores st of
          (None, st') \<Rightarrow> (None, st')
        | (Some e, st') \<Rightarrow>
            if is_ImportError e
            then log_scores scores (st'\<lparr>log_lines := log_lines st' @ [ErrorWeb3Missing]\<rparr>)
            else if is_Exception e
            then log_scores scores (st'\<lparr>log_lines := log_lines st' @ [ErrorSubmissionFailed (str_exn e)]\<rparr>)
            else (Some e, st'))"

subsection \<open>Pipeline driver\<close>

text \<open>
  What the five methods \<^verbatim>\<open>score_peace\<close> to \<^verbatim>\<open>score_wellness\<close> of the aggregator return
  in one cycle. They fetch from the network, so their values are inputs of the driver.
\<close>

record subindex_results =
  score_peace :: "int \<times> source_meta"
  score_charity :: "int \<times> source_meta"
  score_social :: "int \<times> source_meta"
  score_environment :: "int \<times> source_meta"
  score_wellness :: "int \<times> source_meta"

text \<open>The dictionary \<^verbatim>\<open>run_once\<close> returns.\<close>

record report =
  rep_timestamp :: string
  rep_composite :: int
  rep_scores :: "(string \<times> int) list"
  rep_sources :: "(string \<times> (string \<rightharpoonup> string)) list"
  rep_available_sources :: "string list"

definition weights :: "int list" where
  "weights = [2000, 1500, 2000, 1500, 1500]"

text \<open>
  \<^verbatim>\<open>sum(scores[i] * weights[i] for i in range(5)) // 8500\<close>, on the dictionary that
  has just been given the keys 0 to 4.
\<close>

definition off_chain_composite :: "scores_dict \<Rightarrow> int" where
  "off_chain_composite scores =
     sum_list (map (\<lambda>i. the (map_of scores (int i)) * weights ! i) [0..<5]) div 8500"

text \<open>\<^verbatim>\<open>{sk: sv.get("status", "unknown") for sk, sv in v.items()}\<close>.\<close>

definition statuses :: "source_meta \<Rightarrow> (string \<rightharpoonup> string)" where
  "statuses v =
     (\<lambda>sk. case v sk of
              None \<Rightarrow> None
            | Some sv \<Rightarrow> Some (case me_status sv of None \<Rightarrow> ''unknown'' | Some s \<Rightarrow> s))"

text \<open>
  \<^verbatim>\<open>SentimentPipeline.run_once(dry_run)\<close>, with the value of
  \<^verbatim>\<open>datetime.now().isoformat()\<close> as \<open>now\<close>. Of its log lines, those from the composite
  on are modelled. The keys of \<^verbatim>\<open>scores\<close> in the report are \<^verbatim>\<open>str(k)\<close>.
\<close>

definition run_once ::
  "Config \<Rightarrow> subindex_results \<Rightarrow> chain_client \<Rightarrow> string \<Rightarrow> bool
     \<Rightarrow> (exn + report) \<times> submit_state" where
  "run_once config agg ch now dry_run =
     (let available = available_sources config;
          scores = [(0, fst (score_peace agg)), (1, fst (score_charity agg)),
                    (2, fst (score_social agg)), (3, fst (score_environment agg)),
                    (4, fst (score_wellness agg))];
          all_meta = [(''peace'', snd (score_peace agg)), (''charity'', snd (score_charity agg)),
                      (''social'', snd (score_social agg)),
                      (''environment'', snd (score_environment agg)),
                      (''wellness'', snd (score_wellness agg))];
          composite = off_chain_composite scores;
          st0 = \<lparr>log_lines = [InfoComposite composite,
                         if \<not> dry_run then InfoSubmittingToOracle else InfoDryRunNotSubmitting],
                 client_calls = []\<rparr>
      in case submit_scores config ch scores dry_run st0 of
           (Some e, st) \<Rightarrow> (Inl e, st)
         | (None, st) \<Rightarrow>
             (Inr \<lparr>rep_timestamp = now,
                   rep_composite = composite,
                   rep_scores = [(''0'', fst (score_peace agg)), (''1'', fst (score_charity agg)),
                                 (''2'', fst (score_social agg)),
                                 (''3'', fst (score_environment agg)),
                                 (''4'', fst (score_wellness agg))],
                   rep_sources = map (\<lambda>(k, v). (k, statuses v)) all_meta,
                   rep_available_sources = available\<rparr>,
              st\<lparr>log_lines := log_lines st @ [InfoCycleComplete]\<rparr>))"

subsection \<open>Notions of the specification\<close>

text \<open>
  The score formula of the specification, to compare the code with: Python's \<^verbatim>\<open>round\<close>
  (halves go to the even neighbour) of the finite float \<^verbatim>\<open>blended * 1000\<close>, clamped
  to 0..1000.
\<close>

definition spec_score :: "real \<Rightarrow> int" where
  "spec_score x = max 0 (min 1000 (round_half_even x))"

text \<open>
  A result has its error set when the field is not \<^verbatim>\<open>None\<close>; it is error-only when it
  carries nothing else.
\<close>

definition error_set :: "SourceResult \<Rightarrow> bool" where
  "error_set r = (sr_error r \<noteq> None)"

definition error_only :: "SourceResult \<Rightarrow> bool" where
  "error_only r = (error_set r \<and> sr_texts r = [] \<and> sr_scores r = [])"

text \<open>The texts and scores of the results the loop of the Blender does not skip.\<close>

definition usable :: "SourceResult \<Rightarrow> bool" where
  "usable r = (\<not> truthy (sr_error r))"

definition collected_texts :: "SourceResult list \<Rightarrow> string list" where
  "collected_texts results = concat (map sr_texts (filter usable results))"

definition collected_scores :: "SourceResult list \<Rightarrow> pyfloat list" where
  "collected_scores results = concat (map sr_scores (filter usable results))"

subsection \<open>Concrete inputs\<close>

text \<open>The configuration \<^verbatim>\<open>Config()\<close> with the defaults of the dataclass.\<close>

definition Config_default :: Config where
  "Config_default =
     \<lparr>rpc_url = [], oracle_address = [], reporter_private_key = [],
      newsapi_key = [], twitter_bearer_token = [], serper_api_key = [],
      reddit_client_id = [], reddit_client_secret = [], youtube_api_key = [],
      aqicn_token = [], update_interval_hours = 6, use_local_llm = False,
      local_llm_endpoint = ''http://localhost:8080/v1''\<rparr>"

text \<open>A result of the source \<^verbatim>\<open>aqicn\<close> with one score, as \<^verbatim>\<open>fetch_aqicn\<close> builds it.\<close>

definition aqicn_result :: "pyfloat \<Rightarrow> SourceResult" where
  "aqicn_result score =
     \<lparr>sr_name = ''aqicn'', sr_texts = [], sr_scores = [score], sr_count = 1, sr_error = None\<rparr>"

text \<open>
  The float \<^verbatim>\<open>0.99\<close>, which \<^verbatim>\<open>fetch_aqicn\<close> computes for an air quality index of 2.
\<close>

definition float_099 :: pyfloat where
  "float_099 = Finite (4458563631096791 / 4503599627370496)"

text \<open>A chain client on which no call raises; the account has sent 7 transactions.\<close>

definition chain_ok :: chain_client where
  "chain_ok = \<lparr>raises = (\<lambda>before c. None), transaction_count = 7\<rparr>"

text \<open>
  A chain client on which sending the update of category 2 times out, and nothing else
  raises.
\<close>

definition chain_fail2 :: chain_client where
  "chain_fail2 =
     \<lparr>raises = (\<lambda>before c.
                  if c = SendRawTransaction \<lparr>tx_id = 2, tx_score = 900, tx_nonce = 9\<rparr>
                  then Some (Exception ''timeout'') else None),
      transaction_count = 7\<rparr>"

text \<open>The category scores 800, 600, 900, 400, 700 with no provenance.\<close>

definition results_example :: subindex_results where
  "results_example =
     \<lparr>score_peace = (800, Map.empty), score_charity = (600, Map.empty),
      score_social = (900, Map.empty), score_environment = (400, Map.empty),
      score_wellness = (700, Map.empty)\<rparr>"

section \<open>Properties\<close>

subsection \<open>SourceResult and the isolation wrapper\<close>

text \<open>
  Claim C9, as stated, fails: an override of 0 is a non-negative value that is explicitly
  supplied, and \<^verbatim>\<open>count or ...\<close> replaces it by the derived count.
\<close>

theorem count_override_zero_counterexample:
  "(0::int) \<ge> 0
   \<and> sr_count (SourceResult_init ''twitter'' (Some [''a'']) None (Some 0) None) \<noteq> 0"
  by (simp add: SourceResult_init_def or_empty_def)

text \<open>
  Claim C9, amended: the count is the number of texts plus the number of scores when no
  override is given or the override is 0, and it is the override when that is not 0.
\<close>

theorem count_derived_or_nonzero_override:
  "sr_count (SourceResult_init nm txts scs None err)
     = int (length (or_empty txts)) + int (length (or_empty scs))
   \<and> (k \<noteq> 0 \<longrightarrow> sr_count (SourceResult_init nm txts scs (Some k) err) = k)
   \<and> sr_count (SourceResult_init nm txts scs (Some 0) err)
     = int (length (or_empty txts)) + int (length (or_empty scs))"
  by (simp add: SourceResult_init_def Let_def)

theorem count_derived_or_nonzero_override_witness:
  "sr_count (SourceResult_init ''gdelt'' (Some [''a'', ''b'']) (Some [Finite (1 / 2)]) None None) = 3
   \<and> (1::int) \<noteq> 0
   \<and> sr_count (SourceResult_init ''gdelt'' (Some [''a'', ''b'']) (Some [Finite (1 / 2)]) (Some 1)
         None) = 1
   \<and> sr_count (SourceResult_init ''gdelt'' (Some [''a'', ''b'']) (Some [Finite (1 / 2)]) (Some 0)
         None) = 3"
  using count_derived_or_nonzero_override
    [of "''gdelt''" "Some [''a'', ''b'']" "Some [Finite (1 / 2)]" None 1]
  by (simp add: or_empty_def)

text \<open>
  Claim C3, as stated, fails: \<^verbatim>\<open>except Exception\<close> lets an exception that is not an
  instance of \<^verbatim>\<open>Exception\<close> through, such as the \<^verbatim>\<open>KeyboardInterrupt\<close> raised while
  the adapter waits for the network.
\<close>

theorem safe_fetch_base_exception_counterexample:
  "fst (safe_fetch ''gdelt'' (\<lambda>q. Inl (BaseException ''KeyboardInterrupt'')) ''peace'')
     = Inl (BaseException ''KeyboardInterrupt'')"
  by (simp add: safe_fetch_def)

text \<open>
  Claim C3, amended. If the adapter raises an instance of \<^verbatim>\<open>Exception\<close>, the wrapper
  raises nothing, logs one warning and returns a result for that source with no texts,
  no scores, count 0 and the text of the exception as its error. If the adapter raises
  an exception that is not an instance of \<^verbatim>\<open>Exception\<close>, that exception leaves the
  wrapper, which logs nothing. If the adapter returns a result, the wrapper returns it.
\<close>

theorem safe_fetch_isolates_Exception:
  "(fn args = Inl e \<and> is_Exception e \<longrightarrow>
      safe_fetch nm fn args
        = (Inr \<lparr>sr_name = nm, sr_texts = [], sr_scores = [], sr_count = 0,
                 sr_error = Some (str_exn e)\<rparr>,
           [WarnSourceFailed nm (str_exn e)]))
   \<and> (fn args = Inl e \<and> \<not> is_Exception e \<longrightarrow> safe_fetch nm fn args = (Inl e, []))
   \<and> (fn args = Inr r \<longrightarrow> safe_fetch nm fn args = (Inr r, []))"
  by (simp add: safe_fetch_def SourceResult_init_def or_empty_def)

theorem safe_fetch_isolates_Exception_witness:
  "is_Exception (Exception ''timed out'')
   \<and> safe_fetch ''gdelt'' (\<lambda>q::string. Inl (Exception ''timed out'')) ''peace''
       = (Inr \<lparr>sr_name = ''gdelt'', sr_texts = [], sr_scores = [], sr_count = 0,
                sr_error = Some ''timed out''\<rparr>,
          [WarnSourceFailed ''gdelt'' ''timed out''])
   \<and> \<not> is_Exception (BaseException ''SystemExit'')
   \<and> safe_fetch ''gdelt'' (\<lambda>q::string. Inl (BaseException ''SystemExit'')) ''peace''
       = (Inl (BaseException ''SystemExit''), [])
   \<and> safe_fetch ''aqicn'' (\<lambda>q::string. Inr (aqicn_result float_099)) ''london''
       = (Inr (aqicn_result float_099), [])"
  using
    safe_fetch_isolates_Exception
      [of "\<lambda>q::string. Inl (Exception ''timed out'')" "''peace''" "Exception ''timed out''"
          "''gdelt''"]
    safe_fetch_isolates_Exception
      [of "\<lambda>q::string. Inl (BaseException ''SystemExit'')" "''peace''"
          "BaseException ''SystemExit''" "''gdelt''"]
    safe_fetch_isolates_Exception
      [of "\<lambda>q::string. Inr (aqicn_result float_099)" "''london''" _ "''aqicn''"
          "aqicn_result float_099"]
  by simp


subsection \<open>Floats: evaluating the rounding\<close>

text \<open>
  The search for the exponent finds the binade of its argument, so the rounding of a
  real in a known binade is one rounding to an integer. The values below are the
  roundings the concrete inputs of this theory need.
\<close>

lemma two_powi_less_imp:
  assumes "(2::real) powi m < 2 powi n"
  shows "m < n"
proof (rule ccontr)
  assume "\<not> m < n"
  then have "n \<le> m" by simp
  then have "(2::real) powi n \<le> 2 powi m"
    by (rule power_int_increasing) simp
  then show False using assms by simp
qed

lemma expo_from_eqI:
  "2 powi e \<le> a \<Longrightarrow> a < 2 powi (e + 1) \<Longrightarrow> -1022 \<le> e \<Longrightarrow> e \<le> int n - 1022 \<Longrightarrow>
     expo_from n a = e"
proof (induction n)
  case 0
  then show ?case by simp
next
  case (Suc n)
  show ?case
  proof (cases "2 powi (int (Suc n) - 1022) \<le> (a::real)")
    case True
    then have "(2::real) powi (int (Suc n) - 1022) < 2 powi (e + 1)"
      using Suc.prems(2) by simp
    then have "int (Suc n) - 1022 < e + 1"
      by (rule two_powi_less_imp)
    then have "e = int (Suc n) - 1022" using Suc.prems(4) by simp
    then show ?thesis using True by simp
  next
    case False
    then have "(2::real) powi e < 2 powi (int (Suc n) - 1022)"
      using Suc.prems(1) by simp
    then have "e < int (Suc n) - 1022"
      by (rule two_powi_less_imp)
    then have "e \<le> int n - 1022" by simp
    then show ?thesis using Suc False by simp
  qed
qed

lemma expo_eqI:
  "2 powi e \<le> a \<Longrightarrow> a < 2 powi (e + 1) \<Longrightarrow> -1022 \<le> e \<Longrightarrow> e \<le> 1023 \<Longrightarrow> expo a = e"
  unfolding expo_def by (rule expo_from_eqI) simp_all

lemma fl_zero: "fl 0 = Finite 0"
  by (simp add: fl_def Let_def round_half_even_def)

lemma fl_eval:
  assumes "2 powi e \<le> \<bar>x\<bar>" and "\<bar>x\<bar> < 2 powi (e + 1)" and "-1022 \<le> e" and "e \<le> 1023"
    and "y = of_int (round_half_even (x / 2 powi (e - 52))) * 2 powi (e - 52)"
    and "y < 2 powi 1024" and "- (2 powi 1024) < y"
  shows "fl x = Finite y"
  using assms expo_eqI[of e "\<bar>x\<bar>"] by (simp add: fl_def Let_def)

lemma fl_06: "fl (6 / 10) = Finite (5404319552844595 / 9007199254740992)"
  by (rule fl_eval[where e="-1"]) (simp_all add: round_half_even_def Let_def power_int_minus)

lemma fl_04: "fl (4 / 10) = Finite (3602879701896397 / 9007199254740992)"
  by (rule fl_eval[where e="-2"]) (simp_all add: round_half_even_def Let_def power_int_minus)

lemma fl_25: "fl (2 / 5) = Finite (3602879701896397 / 9007199254740992)"
  using fl_04 by simp

lemma fl_small:
  "fl (1 / 1024) = Finite (1 / 1024)"
  "fl (125 / 128) = Finite (125 / 128)"
  "fl (1 / 2) = Finite (1 / 2)"
  "fl (3 / 4) = Finite (3 / 4)"
  "fl (4458563631096791 / 4503599627370496) = Finite (4458563631096791 / 4503599627370496)"
  "fl (5404319552844595 / 9007199254740992) = Finite (5404319552844595 / 9007199254740992)"
  "fl (3602879701896397 / 9007199254740992) = Finite (3602879701896397 / 9007199254740992)"
  "fl (3 / 5) = Finite (5404319552844595 / 9007199254740992)"
  "fl (2026619832316723 / 4503599627370496) = Finite (2026619832316723 / 4503599627370496)"
          apply (rule fl_eval[where e="-10"]; simp add: round_half_even_def Let_def power_int_minus)
         apply (rule fl_eval[where e="-1"]; simp add: round_half_even_def Let_def power_int_minus)
        apply (rule fl_eval[where e="-1"]; simp add: round_half_even_def Let_def power_int_minus)
       apply (rule fl_eval[where e="-1"]; simp add: round_half_even_def Let_def power_int_minus)
      apply (rule fl_eval[where e="-1"]; simp add: round_half_even_def Let_def power_int_minus)
     apply (rule fl_eval[where e="-1"]; simp add: round_half_even_def Let_def power_int_minus)
    apply (rule fl_eval[where e="-2"]; simp add: round_half_even_def Let_def power_int_minus)
   apply (rule fl_eval[where e="-1"]; simp add: round_half_even_def Let_def power_int_minus)
  apply (rule fl_eval[where e="-2"]; simp add: round_half_even_def Let_def power_int_minus)
  done

lemma fl_whole:
  "fl 1 = Finite 1"
  "fl 2 = Finite 2"
  "fl 500 = Finite 500"
  "fl 750 = Finite 750"
  "fl 1000 = Finite 1000"
  "fl 2000 = Finite 2000"
       apply (rule fl_eval[where e="0"]; simp add: round_half_even_def Let_def power_int_minus)
      apply (rule fl_eval[where e="1"]; simp add: round_half_even_def Let_def power_int_minus)
     apply (rule fl_eval[where e="8"]; simp add: round_half_even_def Let_def power_int_minus)
    apply (rule fl_eval[where e="9"]; simp add: round_half_even_def Let_def power_int_minus)
   apply (rule fl_eval[where e="9"]; simp add: round_half_even_def Let_def power_int_minus)
  apply (rule fl_eval[where e="10"]; simp add: round_half_even_def Let_def power_int_minus)
  done

text \<open>
  Three products that are not exact: \<^verbatim>\<open>0.99 * 1000\<close> is rounded up to 990,
  \<^verbatim>\<open>0.75 * 0.6\<close> is rounded to the float below 9/20, and that float times 1000 to the
  float below 450.
\<close>

lemma fmul_099_1000:
  "fmul (Finite (4458563631096791 / 4503599627370496)) (Finite 1000) = Finite 990"
  unfolding fmul.simps
  by (rule fl_eval[where e="9"]; simp add: round_half_even_def Let_def power_int_minus)

lemma fmul_075_06:
  "fmul (Finite (3 / 4)) (Finite (5404319552844595 / 9007199254740992))
     = Finite (2026619832316723 / 4503599627370496)"
  unfolding fmul.simps
  by (rule fl_eval[where e="-2"]; simp add: round_half_even_def Let_def power_int_minus)

lemma fmul_045_1000:
  "fmul (Finite (2026619832316723 / 4503599627370496)) (Finite 1000)
     = Finite (7916483719987199 / 17592186044416)"
  unfolding fmul.simps
  by (rule fl_eval[where e="8"]; simp add: round_half_even_def Let_def power_int_minus)

lemma fmul_zero: "fmul (Finite 0) (Finite y) = Finite 0"
  by (simp add: fl_zero)

lemmas fl_values = fl_zero fl_06 fl_04 fl_25 fl_small fl_whole

lemmas fmul_values = fmul_099_1000 fmul_075_06 fmul_045_1000 fmul_zero

text \<open>On one float, both summations return \<^verbatim>\<open>0 + x\<close>.\<close>

lemma sum_left_single: "sum_left [x] = fadd (Finite 0) x"
  by (simp add: sum_left_def)

lemma sum_neumaier_single: "sum_neumaier [x] = fadd (Finite 0) x"
  by (simp add: Let_def split: pyfloat.splits)

lemmas sum_single = sum_left_single sum_neumaier_single


subsection \<open>Blender: what the loop collects\<close>

lemma blend_step_texts:
  "all_texts (blend_step st r) = all_texts st @ (if usable r then sr_texts r else [])"
  by (simp add: blend_step_def usable_def Let_def)

lemma blend_step_scores:
  "all_scores (blend_step st r) = all_scores st @ (if usable r then sr_scores r else [])"
  by (simp add: blend_step_def usable_def Let_def)

lemma foldl_blend_step_texts:
  "all_texts (foldl blend_step st rs) = all_texts st @ collected_texts rs"
  by (induction rs arbitrary: st) (simp_all add: collected_texts_def blend_step_texts)

lemma foldl_blend_step_scores:
  "all_scores (foldl blend_step st rs) = all_scores st @ collected_scores rs"
  by (induction rs arbitrary: st) (simp_all add: collected_scores_def blend_step_scores)

lemma blend_loop_texts: "all_texts (blend_loop rs) = collected_texts rs"
  by (simp add: blend_loop_def foldl_blend_step_texts blend_init_def)

lemma blend_loop_scores: "all_scores (blend_loop rs) = collected_scores rs"
  by (simp add: blend_loop_def foldl_blend_step_scores blend_init_def)

lemma blend_score:
  "score_of (blend config remote fsum rs context)
     = int_of_float
         (fmul (blended config remote fsum (collected_texts rs) (collected_scores rs) context)
               (Finite 1000))"
  by (simp add: blend_def score_of_def Let_def blend_loop_texts blend_loop_scores
      split: sum.splits)

lemma blend_meta:
  "blend config remote fsum rs context = Inr (n, m) \<Longrightarrow> m = meta (blend_loop rs)"
  by (auto simp: blend_def Let_def split: sum.splits)

subsection \<open>Blender: the score is truncated\<close>

text \<open>
  Claim C1, as stated, fails twice: \<^verbatim>\<open>int(blended * 1000)\<close> truncates where the claim
  rounds (one numeric score of 1/1024 makes \<^verbatim>\<open>blended * 1000\<close> the float 125/128, which
  gives 0, not 1), and the Blender does not clamp (one numeric score of 2 gives 2000,
  not 1000). Both hold with either summation.
\<close>

theorem blend_round_clamp_counterexample:
  "score_of (blend Config_default (\<lambda>t c. None) sum_left [aqicn_result (Finite (1 / 1024))]
       ''environmental care'') = Inr 0
   \<and> score_of (blend Config_default (\<lambda>t c. None) sum_neumaier
       [aqicn_result (Finite (1 / 1024))] ''environmental care'') = Inr 0
   \<and> fmul (fdiv (sum_left [Finite (1 / 1024)]) (real (length [Finite (1 / 1024)])))
        (Finite 1000) = Finite (125 / 128)
   \<and> spec_score (125 / 128) = 1
   \<and> score_of (blend Config_default (\<lambda>t c. None) sum_left [aqicn_result (Finite 2)]
       ''environmental care'') = Inr 2000
   \<and> score_of (blend Config_default (\<lambda>t c. None) sum_neumaier [aqicn_result (Finite 2)]
       ''environmental care'') = Inr 2000
   \<and> fmul (fdiv (sum_left [Finite 2]) (real (length [Finite 2]))) (Finite 1000) = Finite 2000
   \<and> spec_score 2000 = 1000"
  by (simp add: score_of_def blend_def blend_loop_def blend_init_def blend_step_def truthy_def
      blended_def Let_def aqicn_result_def sum_single fl_values spec_score_def
      round_half_even_def)

text \<open>
  Claim C1, amended. For every set of results and either summation, the score is the
  float \<^verbatim>\<open>blended * 1000\<close> truncated toward zero by \<^verbatim>\<open>int\<close>, not rounded and not
  clamped, where \<^verbatim>\<open>blended\<close> is computed in floats from the texts and scores of the
  results that are not skipped; \<^verbatim>\<open>int\<close> raises when that float is an infinity or a
  NaN. For a result set that contributes scores and no texts, \<^verbatim>\<open>blended\<close> is the float
  \<^verbatim>\<open>sum(all_scores) / len(all_scores)\<close>. When \<^verbatim>\<open>blended * 1000\<close> is a finite float
  that is not negative, the score is its floor.
\<close>

theorem blend_score_truncates:
  "score_of (blend config remote fsum results context)
     = int_of_float
         (fmul (blended config remote fsum (collected_texts results) (collected_scores results)
                  context)
               (Finite 1000))
   \<and> (collected_texts results = [] \<and> collected_scores results \<noteq> [] \<longrightarrow>
        score_of (blend config remote fsum results context)
          = int_of_float
              (fmul (fdiv (fsum (collected_scores results))
                          (real (length (collected_scores results))))
                    (Finite 1000)))
   \<and> (fmul (blended config remote fsum (collected_texts results) (collected_scores results)
               context)
            (Finite 1000) = Finite v \<and> 0 \<le> v \<longrightarrow>
        score_of (blend config remote fsum results context) = Inr \<lfloor>v\<rfloor>)"
proof (intro conjI impI)
  show "score_of (blend config remote fsum results context)
     = int_of_float
         (fmul (blended config remote fsum (collected_texts results) (collected_scores results)
                  context)
               (Finite 1000))"
    by (rule blend_score)
next
  assume "collected_texts results = [] \<and> collected_scores results \<noteq> []"
  then show "score_of (blend config remote fsum results context)
          = int_of_float
              (fmul (fdiv (fsum (collected_scores results))
                          (real (length (collected_scores results))))
                    (Finite 1000))"
    by (simp add: blend_score blended_def)
next
  assume "fmul (blended config remote fsum (collected_texts results) (collected_scores results)
               context)
            (Finite 1000) = Finite v \<and> 0 \<le> v"
  then show "score_of (blend config remote fsum results context) = Inr \<lfloor>v\<rfloor>"
    by (simp add: blend_score)
qed

text \<open>
  The witness is the result \<^verbatim>\<open>fetch_aqicn\<close> builds for an air quality index of 2: the
  float 0.99 times 1000 is rounded to the float 990, and the score is 990, where the
  product of the two reals has the floor 989.
\<close>

theorem blend_score_truncates_witness:
  "collected_texts [aqicn_result float_099] = []
   \<and> collected_scores [aqicn_result float_099] = [float_099]
   \<and> fmul (fdiv (sum_left [float_099]) (real (length [float_099]))) (Finite 1000) = Finite 990
   \<and> (0::real) \<le> 990
   \<and> score_of (blend Config_default (\<lambda>t c. None) sum_left [aqicn_result float_099]
        ''environmental care'') = Inr 990
   \<and> \<lfloor>4458563631096791 / 4503599627370496 * (1000::real)\<rfloor> = 989"
proof -
  have c: "collected_texts [aqicn_result float_099] = []
           \<and> collected_scores [aqicn_result float_099] = [float_099]"
    by (simp add: collected_texts_def collected_scores_def usable_def truthy_def
        aqicn_result_def)
  have p: "fmul (fdiv (sum_left [float_099]) (real (length [float_099]))) (Finite 1000)
             = Finite 990"
    by (simp add: float_099_def sum_single fl_values fmul_values del: fmul.simps)
  have b: "blended Config_default (\<lambda>t c. None) sum_left [] [float_099] ''environmental care''
             = fdiv (sum_left [float_099]) (real (length [float_099]))"
    by (simp add: blended_def)
  show ?thesis
    using c p b
      blend_score_truncates [of Config_default "\<lambda>t c. None" sum_left
        "[aqicn_result float_099]" "''environmental care''" 990]
    by simp
qed

text \<open>
  More of the arithmetic of the code. Three positive words and one negative one with a
  numeric score of 0 give \<^verbatim>\<open>0.75 * 0.6 + 0.0 * 0.4\<close>, the float below 9/20, and the
  score 449; an infinite score makes \<^verbatim>\<open>int\<close> raise.
\<close>

lemma blend_double_examples:
  "score_of (blend Config_default (\<lambda>t c. None) sum_left
       [\<lparr>sr_name = ''gfw'', sr_texts = [''peace hope love war''], sr_scores = [Finite 0],
         sr_count = 1, sr_error = None\<rparr>] ''environmental care'') = Inr 449"
  "score_of (blend Config_default (\<lambda>t c. None) sum_left [aqicn_result PosInf]
       ''environmental care'')
     = Inl (Exception ''cannot convert float infinity to integer'')"
proof -
  have k: "foldl count_text (0, 0) [''peace hope love war''] = (3, 1)"
    by code_simp
  have a: "analyze_keyword [''peace hope love war''] = Finite (3 / 4)"
    unfolding analyze_keyword_def k by (simp add: fl_values)
  show "score_of (blend Config_default (\<lambda>t c. None) sum_left
       [\<lparr>sr_name = ''gfw'', sr_texts = [''peace hope love war''], sr_scores = [Finite 0],
         sr_count = 1, sr_error = None\<rparr>] ''environmental care'') = Inr 449"
    by (simp add: score_of_def blend_def blend_loop_def blend_init_def blend_step_def
        truthy_def blended_def Let_def analyze_def Config_default_def a sum_single fl_values
        fmul_values del: fmul.simps)
  show "score_of (blend Config_default (\<lambda>t c. None) sum_left [aqicn_result PosInf]
       ''environmental care'')
     = Inl (Exception ''cannot convert float infinity to integer'')"
    by (simp add: score_of_def blend_def blend_loop_def blend_init_def blend_step_def
        truthy_def blended_def Let_def aqicn_result_def sum_single)
qed


subsection \<open>Blender: results with an error\<close>

text \<open>
  A result whose error is a non-empty string is skipped: the step adds nothing to the
  texts and scores and writes the error entry of the source.
\<close>

lemma blend_step_error:
  assumes "truthy (sr_error r)"
  shows "all_texts (blend_step st r) = all_texts st
       \<and> all_scores (blend_step st r) = all_scores st
       \<and> meta (blend_step st r) (sr_name r)
           = Some \<lparr>me_status = Some ''error'', me_error = sr_error r,
                   me_texts = None, me_scores = None\<rparr>
       \<and> (\<forall>k. k \<noteq> sr_name r \<longrightarrow> meta (blend_step st r) k = meta st k)"
  using assms by (simp add: blend_step_def)

lemma collected_texts_no_data:
  "\<forall>r\<in>set rs. truthy (sr_error r) \<or> (sr_texts r = [] \<and> sr_scores r = []) \<Longrightarrow>
     collected_texts rs = []"
  by (induction rs) (auto simp: collected_texts_def usable_def)

lemma collected_scores_no_data:
  "\<forall>r\<in>set rs. truthy (sr_error r) \<or> (sr_texts r = [] \<and> sr_scores r = []) \<Longrightarrow>
     collected_scores rs = []"
  by (induction rs) (auto simp: collected_scores_def usable_def)

lemma blend_neutral:
  assumes "\<forall>r\<in>set rs. truthy (sr_error r) \<or> (sr_texts r = [] \<and> sr_scores r = [])"
  shows "score_of (blend config remote fsum rs context) = Inr 500"
  using assms
  by (simp add: blend_score collected_texts_no_data collected_scores_no_data blended_def
      fl_values)

text \<open>
  Claim C4: when every result has its error set or carries no texts and no scores, the
  Blender returns the score 500, for every configuration, remote scorer, summation and
  context. The results are those the program builds: a result whose error is the empty
  string carries no texts and no scores (every construction of a \<^verbatim>\<open>SourceResult\<close> with an
  error, \<^verbatim>\<open>_safe_fetch\<close> included, passes neither). A result whose error is a non-empty
  string may carry anything.
\<close>

theorem blend_all_failed_or_empty:
  assumes "\<forall>r\<in>set results. error_set r \<or> (sr_texts r = [] \<and> sr_scores r = [])"
    and "\<forall>r\<in>set results. sr_error r = Some [] \<longrightarrow> sr_texts r = [] \<and> sr_scores r = []"
  shows "score_of (blend config remote fsum results context) = Inr 500"
proof -
  have "\<forall>r\<in>set results. truthy (sr_error r) \<or> (sr_texts r = [] \<and> sr_scores r = [])"
  proof
    fix r assume r: "r \<in> set results"
    show "truthy (sr_error r) \<or> (sr_texts r = [] \<and> sr_scores r = [])"
    proof (cases "sr_error r")
      case None
      then show ?thesis using assms(1) r by (auto simp: error_set_def)
    next
      case (Some m)
      then show ?thesis using assms(2) r by (cases "m = []") (auto simp: truthy_def)
    qed
  qed
  then show ?thesis by (rule blend_neutral)
qed

text \<open>
  The witness is a category all of whose sources failed or are empty: an error with a
  message, the result \<^verbatim>\<open>_safe_fetch\<close> builds for an exception with an empty message, an
  error whose result was given data by hand, and a result with no error and no data.
\<close>

theorem blend_all_failed_or_empty_witness:
  "error_set \<lparr>sr_name = ''gdelt'', sr_texts = [], sr_scores = [], sr_count = 0,
              sr_error = Some ''HTTP 429''\<rparr>
   \<and> fst (safe_fetch ''reliefweb'' (\<lambda>q. Inl (Exception [])) ''conflict peace'')
       = Inr \<lparr>sr_name = ''reliefweb'', sr_texts = [], sr_scores = [], sr_count = 0,
              sr_error = Some []\<rparr>
   \<and> error_set \<lparr>sr_name = ''reliefweb'', sr_texts = [], sr_scores = [], sr_count = 0,
                sr_error = Some []\<rparr>
   \<and> error_set \<lparr>sr_name = ''gfw'', sr_texts = [''war''], sr_scores = [Finite 1], sr_count = 1,
                sr_error = Some ''HTTP 500''\<rparr>
   \<and> score_of (blend Config_default (\<lambda>t c. None) sum_left
        [\<lparr>sr_name = ''gdelt'', sr_texts = [], sr_scores = [], sr_count = 0,
          sr_error = Some ''HTTP 429''\<rparr>,
         \<lparr>sr_name = ''reliefweb'', sr_texts = [], sr_scores = [], sr_count = 0,
          sr_error = Some []\<rparr>,
         \<lparr>sr_name = ''gfw'', sr_texts = [''war''], sr_scores = [Finite 1], sr_count = 1,
          sr_error = Some ''HTTP 500''\<rparr>,
         \<lparr>sr_name = ''newsapi'', sr_texts = [], sr_scores = [], sr_count = 0,
          sr_error = None\<rparr>]
        ''global peace and conflict'') = Inr 500"
proof -
  have h1: "\<forall>r\<in>set
        [\<lparr>sr_name = ''gdelt'', sr_texts = [], sr_scores = [], sr_count = 0,
          sr_error = Some ''HTTP 429''\<rparr>,
         \<lparr>sr_name = ''reliefweb'', sr_texts = [], sr_scores = [], sr_count = 0,
          sr_error = Some []\<rparr>,
         \<lparr>sr_name = ''gfw'', sr_texts = [''war''], sr_scores = [Finite 1], sr_count = 1,
          sr_error = Some ''HTTP 500''\<rparr>,
         \<lparr>sr_name = ''newsapi'', sr_texts = [], sr_scores = [], sr_count = 0,
          sr_error = None\<rparr>].
      error_set r \<or> (sr_texts r = [] \<and> sr_scores r = [])"
    by (simp add: error_set_def)
  have h2: "\<forall>r\<in>set
        [\<lparr>sr_name = ''gdelt'', sr_texts = [], sr_scores = [], sr_count = 0,
          sr_error = Some ''HTTP 429''\<rparr>,
         \<lparr>sr_name = ''reliefweb'', sr_texts = [], sr_scores = [], sr_count = 0,
          sr_error = Some []\<rparr>,
         \<lparr>sr_name = ''gfw'', sr_texts = [''war''], sr_scores = [Finite 1], sr_count = 1,
          sr_error = Some ''HTTP 500''\<rparr>,
         \<lparr>sr_name = ''newsapi'', sr_texts = [], sr_scores = [], sr_count = 0,
          sr_error = None\<rparr>].
      sr_error r = Some [] \<longrightarrow> sr_texts r = [] \<and> sr_scores r = []"
    by simp
  have s: "fst (safe_fetch ''reliefweb'' (\<lambda>q. Inl (Exception [])) ''conflict peace'')
       = Inr \<lparr>sr_name = ''reliefweb'', sr_texts = [], sr_scores = [], sr_count = 0,
              sr_error = Some []\<rparr>"
    by (simp add: safe_fetch_def SourceResult_init_def or_empty_def)
  show ?thesis
    using s
      blend_all_failed_or_empty [OF h1 h2, of Config_default "\<lambda>t c. None" sum_left
        "''global peace and conflict''"]
    by (simp add: error_set_def)
qed

text \<open>
  Claim C10 (a result whose error is set contributes no texts or scores and gets an
  error entry in the provenance), evaluated where the code departs from it. The result
  the isolation wrapper builds for an exception with an empty message has its error set
  to the empty string: the Blender returns 500 and records no entry for the source. A
  result with the empty string as error and with data is blended as if it had no
  error: the text \<^verbatim>\<open>peace\<close> and the score 1 give 1000, with either summation, and the
  entry of the source says \<^verbatim>\<open>ok\<close>.
\<close>

theorem blend_empty_error_string:
  "fst (safe_fetch ''gdelt'' (\<lambda>q. Inl (Exception [])) ''peace OR conflict'')
     = Inr \<lparr>sr_name = ''gdelt'', sr_texts = [], sr_scores = [], sr_count = 0,
            sr_error = Some []\<rparr>
   \<and> blend Config_default (\<lambda>t c. None) sum_left
          [\<lparr>sr_name = ''gdelt'', sr_texts = [], sr_scores = [], sr_count = 0,
            sr_error = Some []\<rparr>] ''global peace and conflict''
       = Inr (500, Map.empty)
   \<and> blend Config_default (\<lambda>t c. None) sum_left
          [\<lparr>sr_name = ''gfw'', sr_texts = [''peace''], sr_scores = [Finite 1], sr_count = 1,
            sr_error = Some []\<rparr>] ''environmental care''
       = Inr (1000, [''gfw'' \<mapsto> \<lparr>me_status = Some ''ok'', me_error = None,
                                  me_texts = Some 1, me_scores = Some 1\<rparr>])
   \<and> blend Config_default (\<lambda>t c. None) sum_neumaier
          [\<lparr>sr_name = ''gfw'', sr_texts = [''peace''], sr_scores = [Finite 1], sr_count = 1,
            sr_error = Some []\<rparr>] ''environmental care''
       = Inr (1000, [''gfw'' \<mapsto> \<lparr>me_status = Some ''ok'', me_error = None,
                                  me_texts = Some 1, me_scores = Some 1\<rparr>])"
proof -
  have k: "foldl count_text (0, 0) [''peace''] = (1, 0)"
    by code_simp
  have a: "analyze_keyword [''peace''] = Finite 1"
    unfolding analyze_keyword_def k by (simp add: fl_values)
  show ?thesis
    by (simp add: safe_fetch_def SourceResult_init_def or_empty_def blend_def blend_loop_def
        blend_init_def blend_step_def truthy_def blended_def Let_def analyze_def
        Config_default_def empty_entry_def a sum_single fl_values)
qed

subsection \<open>Blender: independence of the error-only results\<close>

lemma collected_texts_filter:
  "collected_texts (filter (\<lambda>r. \<not> error_only r) rs) = collected_texts rs"
  by (induction rs) (auto simp: collected_texts_def error_only_def)

lemma collected_scores_filter:
  "collected_scores (filter (\<lambda>r. \<not> error_only r) rs) = collected_scores rs"
  by (induction rs) (auto simp: collected_scores_def error_only_def)

lemma blend_filter_error_only:
  "score_of (blend config remote fsum (filter (\<lambda>r. \<not> error_only r) rs) context)
     = score_of (blend config remote fsum rs context)"
  by (simp add: blend_score collected_texts_filter collected_scores_filter)

text \<open>
  Claim C7: two result lists that are equal once their error-only members (error set, no
  texts, no scores) are removed get the same score from the Blender (or the same
  exception from \<^verbatim>\<open>int\<close>), with the same configuration, remote scorer, summation and
  context. So adding or removing error-only members, or changing their names or
  messages, does not change the score.
\<close>

theorem blend_ignores_error_only:
  assumes "filter (\<lambda>r. \<not> error_only r) rs = filter (\<lambda>r. \<not> error_only r) rs'"
  shows "score_of (blend config remote fsum rs context)
           = score_of (blend config remote fsum rs' context)"
proof -
  have "score_of (blend config remote fsum rs context)
          = score_of (blend config remote fsum (filter (\<lambda>r. \<not> error_only r) rs) context)"
    by (simp add: blend_filter_error_only)
  also have "\<dots>
          = score_of (blend config remote fsum (filter (\<lambda>r. \<not> error_only r) rs') context)"
    using assms by simp
  also have "\<dots> = score_of (blend config remote fsum rs' context)"
    by (simp add: blend_filter_error_only)
  finally show ?thesis .
qed

theorem blend_ignores_error_only_witness:
  "filter (\<lambda>r. \<not> error_only r)
     [\<lparr>sr_name = ''gdelt'', sr_texts = [], sr_scores = [], sr_count = 0,
       sr_error = Some ''HTTP 429''\<rparr>,
      \<lparr>sr_name = ''hedonometer'', sr_texts = [], sr_scores = [Finite (3 / 4)], sr_count = 1,
       sr_error = None\<rparr>]
   = filter (\<lambda>r. \<not> error_only r)
     [\<lparr>sr_name = ''hedonometer'', sr_texts = [], sr_scores = [Finite (3 / 4)], sr_count = 1,
       sr_error = None\<rparr>,
      \<lparr>sr_name = ''gdelt'', sr_texts = [], sr_scores = [], sr_count = 0,
       sr_error = Some ''timed out''\<rparr>,
      \<lparr>sr_name = ''reliefweb'', sr_texts = [], sr_scores = [], sr_count = 0,
       sr_error = Some []\<rparr>]
   \<and> score_of (blend Config_default (\<lambda>t c. None) sum_left
     [\<lparr>sr_name = ''gdelt'', sr_texts = [], sr_scores = [], sr_count = 0,
       sr_error = Some ''HTTP 429''\<rparr>,
      \<lparr>sr_name = ''hedonometer'', sr_texts = [], sr_scores = [Finite (3 / 4)], sr_count = 1,
       sr_error = None\<rparr>]
     ''social sentiment'')
   = score_of (blend Config_default (\<lambda>t c. None) sum_left
     [\<lparr>sr_name = ''hedonometer'', sr_texts = [], sr_scores = [Finite (3 / 4)], sr_count = 1,
       sr_error = None\<rparr>,
      \<lparr>sr_name = ''gdelt'', sr_texts = [], sr_scores = [], sr_count = 0,
       sr_error = Some ''timed out''\<rparr>,
      \<lparr>sr_name = ''reliefweb'', sr_texts = [], sr_scores = [], sr_count = 0,
       sr_error = Some []\<rparr>]
     ''social sentiment'')
   \<and> score_of (blend Config_default (\<lambda>t c. None) sum_left
     [\<lparr>sr_name = ''gdelt'', sr_texts = [], sr_scores = [], sr_count = 0,
       sr_error = Some ''HTTP 429''\<rparr>,
      \<lparr>sr_name = ''hedonometer'', sr_texts = [], sr_scores = [Finite (3 / 4)], sr_count = 1,
       sr_error = None\<rparr>]
     ''social sentiment'') = Inr 750"
proof -
  have h: "filter (\<lambda>r. \<not> error_only r)
     [\<lparr>sr_name = ''gdelt'', sr_texts = [], sr_scores = [], sr_count = 0,
       sr_error = Some ''HTTP 429''\<rparr>,
      \<lparr>sr_name = ''hedonometer'', sr_texts = [], sr_scores = [Finite (3 / 4)], sr_count = 1,
       sr_error = None\<rparr>]
   = filter (\<lambda>r. \<not> error_only r)
     [\<lparr>sr_name = ''hedonometer'', sr_texts = [], sr_scores = [Finite (3 / 4)], sr_count = 1,
       sr_error = None\<rparr>,
      \<lparr>sr_name = ''gdelt'', sr_texts = [], sr_scores = [], sr_count = 0,
       sr_error = Some ''timed out''\<rparr>,
      \<lparr>sr_name = ''reliefweb'', sr_texts = [], sr_scores = [], sr_count = 0,
       sr_error = Some []\<rparr>]"
    by (simp add: error_only_def error_set_def)
  have v: "score_of (blend Config_default (\<lambda>t c. None) sum_left
     [\<lparr>sr_name = ''gdelt'', sr_texts = [], sr_scores = [], sr_count = 0,
       sr_error = Some ''HTTP 429''\<rparr>,
      \<lparr>sr_name = ''hedonometer'', sr_texts = [], sr_scores = [Finite (3 / 4)], sr_count = 1,
       sr_error = None\<rparr>]
     ''social sentiment'') = Inr 750"
    by (simp add: score_of_def blend_def blend_loop_def blend_init_def blend_step_def
        truthy_def blended_def Let_def sum_single fl_values)
  show ?thesis
    using h v
      blend_ignores_error_only [OF h, of Config_default "\<lambda>t c. None" sum_left
        "''social sentiment''"]
    by simp
qed


subsection \<open>Lexicon scorer\<close>

text \<open>
  The counters after a word, a text and a list of texts are the counters before plus
  what the word, the text and the texts count from zero.
\<close>

lemma count_word_shift:
  "count_word (p, n) w = (p + fst (count_word (0, 0) w), n + snd (count_word (0, 0) w))"
  by (simp add: count_word_def Let_def)

lemma foldl_count_word_shift:
  "foldl count_word (p, n) ws
     = (p + fst (foldl count_word (0, 0) ws), n + snd (foldl count_word (0, 0) ws))"
proof (induction ws arbitrary: p n)
  case Nil
  then show ?case by simp
next
  case (Cons w ws)
  obtain a b where ab: "count_word (0, 0) w = (a, b)" by (cases "count_word (0, 0) w")
  have s: "count_word (p, n) w = (p + a, n + b)"
    using count_word_shift[of p n w] ab by simp
  show ?case
    using Cons.IH[of "p + a" "n + b"] Cons.IH[of a b] s ab by simp
qed

lemma count_text_shift:
  "count_text (p, n) t = (p + fst (count_text (0, 0) t), n + snd (count_text (0, 0) t))"
  unfolding count_text_def by (rule foldl_count_word_shift)

lemma foldl_count_text_sum:
  "foldl count_text (p, n) txts
     = (p + sum_list (map (\<lambda>t. fst (count_text (0, 0) t)) txts),
        n + sum_list (map (\<lambda>t. snd (count_text (0, 0) t)) txts))"
proof (induction txts arbitrary: p n)
  case Nil
  then show ?case by simp
next
  case (Cons t txts)
  have s: "count_text (p, n) t
             = (p + fst (count_text (0, 0) t), n + snd (count_text (0, 0) t))"
    by (rule count_text_shift)
  show ?case
    using Cons.IH[of "p + fst (count_text (0, 0) t)" "n + snd (count_text (0, 0) t)"] s
    by (simp add: add.assoc)
qed

lemma sum_list_perm:
  fixes f :: "'a \<Rightarrow> nat"
  assumes "mset xs = mset ys"
  shows "sum_list (map f xs) = sum_list (map f ys)"
proof -
  have "sum_list (map f xs) = sum_mset (image_mset f (mset xs))"
    by (simp add: sum_mset_sum_list[symmetric])
  also have "\<dots> = sum_mset (image_mset f (mset ys))" using assms by simp
  also have "\<dots> = sum_list (map f ys)" by (simp add: sum_mset_sum_list[symmetric])
  finally show ?thesis .
qed

lemma analyze_keyword_perm:
  assumes "mset txts = mset txts'"
  shows "analyze_keyword txts = analyze_keyword txts'"
proof -
  have "foldl count_text (0, 0) txts = foldl count_text (0, 0) txts'"
    using sum_list_perm[OF assms, of "\<lambda>t. fst (count_text (0, 0) t)"]
          sum_list_perm[OF assms, of "\<lambda>t. snd (count_text (0, 0) t)"]
    by (simp add: foldl_count_text_sum)
  then show ?thesis by (simp add: analyze_keyword_def)
qed

text \<open>
  Claim C8: the lexicon scorer gives the same value on any two lists of texts that are
  permutations of each other, and so does the Text Scorer as a whole when the remote
  strategy is not configured. The scorer is a function of the list alone (it reads and
  writes no state), so scoring the same list again gives the same value. In the witness
  three positive words and two negative ones give the float \<^verbatim>\<open>0.6\<close>.
\<close>

theorem analyze_keyword_order_independent:
  assumes "mset txts = mset txts'"
  shows "analyze_keyword txts = analyze_keyword txts'
         \<and> (\<not> use_local_llm config \<longrightarrow>
              analyze config remote txts context = analyze config remote txts' context)"
proof -
  have k: "analyze_keyword txts = analyze_keyword txts'"
    using assms by (rule analyze_keyword_perm)
  have e: "(txts = []) = (txts' = [])"
    using assms by (metis mset_zero_iff)
  show ?thesis using k e by (simp add: analyze_def)
qed

theorem analyze_keyword_order_independent_witness:
  "mset [''Peace treaty signed!'', ''War, famine and (hope).'']
     = mset [''War, famine and (hope).'', ''Peace treaty signed!'']
   \<and> analyze_keyword [''Peace treaty signed!'', ''War, famine and (hope).'']
     = analyze_keyword [''War, famine and (hope).'', ''Peace treaty signed!'']
   \<and> analyze_keyword [''War, famine and (hope).'', ''Peace treaty signed!'']
     = Finite (5404319552844595 / 9007199254740992)
   \<and> \<not> use_local_llm Config_default
   \<and> analyze Config_default (\<lambda>t c. None) [''Peace treaty signed!'', ''War, famine and (hope).'']
       ''global peace and conflict''
     = analyze Config_default (\<lambda>t c. None) [''War, famine and (hope).'', ''Peace treaty signed!'']
       ''global peace and conflict''"
proof -
  have h: "mset [''Peace treaty signed!'', ''War, famine and (hope).'']
     = mset [''War, famine and (hope).'', ''Peace treaty signed!'']"
    by (simp add: add.commute)
  have k: "foldl count_text (0, 0) [''War, famine and (hope).'', ''Peace treaty signed!'']
             = (3, 2)"
    by code_simp
  have v: "analyze_keyword [''War, famine and (hope).'', ''Peace treaty signed!'']
             = Finite (5404319552844595 / 9007199254740992)"
    unfolding analyze_keyword_def k by (simp add: fl_values)
  have c: "\<not> use_local_llm Config_default"
    by (simp add: Config_default_def)
  show ?thesis
    using h v c
      analyze_keyword_order_independent
        [OF h, of Config_default "\<lambda>t c. None" "''global peace and conflict''"]
    by simp
qed


subsection \<open>Submission: the live loop in general\<close>

text \<open>
  A sequence of client calls adds calls of that sequence only and no log line, and it
  raises only what the client raises. The body of the loop calls the client about its
  own category only (or for the gas price), and appends to the log; when it returns
  normally, the confirmation of its category is in the log. Once the loop has raised,
  the keys that follow are not looked at: the result is the same whatever they are,
  and no client call is about any of them.
\<close>

lemma perform_calls:
  "set (client_calls (snd (perform ch cs st))) \<subseteq> set (client_calls st) \<union> set cs"
proof (induction cs arbitrary: st)
  case Nil
  then show ?case by simp
next
  case (Cons c cs)
  show ?case
  proof (cases "raises ch (client_calls st) c")
    case None
    then show ?thesis
      using Cons.IH[of "st\<lparr>client_calls := client_calls st @ [c]\<rparr>"] by auto
  next
    case (Some e)
    then show ?thesis by auto
  qed
qed

lemma perform_log: "log_lines (snd (perform ch cs st)) = log_lines st"
  by (induction cs arbitrary: st) (auto split: option.splits)

lemma submit_one_calls:
  assumes "c \<in> set (client_calls (snd (submit_one ch scores k nonce st)))"
  shows "c \<in> set (client_calls st) \<or> c = GasPrice \<or> call_category c = Some k"
proof (cases "dict_get scores k")
  case (Inl e)
  then show ?thesis using assms by (simp add: submit_one_def)
next
  case (Inr v)
  show ?thesis
  proof (cases "names_at k")
    case (Inl e)
    then show ?thesis using assms Inr by (simp add: submit_one_def)
  next
    case nm: (Inr nm)
    define t where "t = \<lparr>tx_id = k, tx_score = max 0 (min 1000 v), tx_nonce = nonce\<rparr>"
    define cs where "cs = [UpdateSubIndex k (max 0 (min 1000 v)), GasPrice, BuildTransaction t,
                           SignTransaction t, SendRawTransaction t, WaitForReceipt t]"
    define st0 where
      "st0 = st\<lparr>log_lines := log_lines st @ [InfoSubmitting nm (max 0 (min 1000 v))]\<rparr>"
    have eq: "client_calls (snd (submit_one ch scores k nonce st))
                = client_calls (snd (perform ch cs st0))"
      using Inr nm
      by (simp add: submit_one_def Let_def cs_def t_def st0_def split: prod.splits option.splits)
    have "c \<in> set (client_calls st0) \<union> set cs"
      using assms eq perform_calls[of ch cs st0] by auto
    then show ?thesis by (auto simp: cs_def t_def st0_def)
  qed
qed

lemma submit_loop_prefix:
  "submit_loop ch scores pre nonce st = (Some e, st') \<Longrightarrow>
     submit_loop ch scores (pre @ post) nonce st = (Some e, st')"
proof (induction ch scores pre nonce st rule: submit_loop.induct)
  case (1 ch scores nonce st)
  then show ?case by simp
next
  case (2 ch scores subindex_id ids nonce st)
  then show ?case
    by (auto split: if_splits prod.splits option.splits)
qed

lemma submit_loop_calls:
  "c \<in> set (client_calls (snd (submit_loop ch scores ids nonce st))) \<Longrightarrow>
     c \<in> set (client_calls st) \<or> c = GasPrice \<or> (\<exists>i\<in>set ids. call_category c = Some i)"
proof (induction ch scores ids nonce st rule: submit_loop.induct)
  case (1 ch scores nonce st)
  then show ?case by simp
next
  case (2 ch scores k ids nonce st)
  show ?case
  proof (cases "k \<ge> 5")
    case True
    then show ?thesis using 2 by auto
  next
    case False
    obtain r st1 where one: "submit_one ch scores k nonce st = (r, st1)"
      by (cases "submit_one ch scores k nonce st")
    have c1: "\<And>d. d \<in> set (client_calls st1) \<Longrightarrow>
                d \<in> set (client_calls st) \<or> d = GasPrice \<or> call_category d = Some k"
      using submit_one_calls[of _ ch scores k nonce st] one by simp
    show ?thesis
    proof (cases r)
      case None
      have eq: "submit_loop ch scores (k # ids) nonce st = submit_loop ch scores ids (nonce + 1) st1"
        using False one None by simp
      have "c \<in> set (client_calls st1) \<or> c = GasPrice \<or> (\<exists>i\<in>set ids. call_category c = Some i)"
        using "2.IH"(2)[OF False one[symmetric] None] "2.prems" eq by simp
      then show ?thesis using c1 by auto
    next
      case (Some e)
      have "submit_loop ch scores (k # ids) nonce st = (Some e, st1)"
        using False one Some by simp
      then show ?thesis using "2.prems" c1 by auto
    qed
  qed
qed

lemma submit_one_log:
  "\<exists>ls. log_lines (snd (submit_one ch scores k nonce st)) = log_lines st @ ls"
proof (cases "dict_get scores k")
  case (Inl e)
  then show ?thesis by (simp add: submit_one_def)
next
  case (Inr v)
  show ?thesis
  proof (cases "names_at k")
    case (Inl e)
    then show ?thesis using Inr by (simp add: submit_one_def)
  next
    case nm: (Inr nm)
    define t where "t = \<lparr>tx_id = k, tx_score = max 0 (min 1000 v), tx_nonce = nonce\<rparr>"
    define cs where "cs = [UpdateSubIndex k (max 0 (min 1000 v)), GasPrice, BuildTransaction t,
                           SignTransaction t, SendRawTransaction t, WaitForReceipt t]"
    define st0 where
      "st0 = st\<lparr>log_lines := log_lines st @ [InfoSubmitting nm (max 0 (min 1000 v))]\<rparr>"
    obtain r st1 where p: "perform ch cs st0 = (r, st1)" by (cases "perform ch cs st0")
    have l: "log_lines st1 = log_lines st0" using perform_log[of ch cs st0] p by simp
    have "submit_one ch scores k nonce st
            = (case r of Some e \<Rightarrow> (Some e, st1)
               | None \<Rightarrow> (None, st1\<lparr>log_lines := log_lines st1 @ [InfoUpdated nm]\<rparr>))"
      using Inr nm p by (simp add: submit_one_def Let_def cs_def t_def st0_def)
    then show ?thesis using l by (cases r) (simp_all add: st0_def)
  qed
qed

lemma submit_one_confirms:
  assumes "submit_one ch scores k nonce st = (None, st1)"
  shows "\<exists>nm. names_at k = Inr nm \<and> InfoUpdated nm \<in> set (log_lines st1)"
  using assms
  by (auto simp: submit_one_def Let_def split: sum.splits prod.splits option.splits)

lemma submit_loop_log:
  "\<exists>ls. log_lines (snd (submit_loop ch scores ids nonce st)) = log_lines st @ ls"
proof (induction ch scores ids nonce st rule: submit_loop.induct)
  case (1 ch scores nonce st)
  then show ?case by simp
next
  case (2 ch scores k ids nonce st)
  show ?case
  proof (cases "k \<ge> 5")
    case True
    then show ?thesis using 2 by simp
  next
    case False
    obtain r st1 where one: "submit_one ch scores k nonce st = (r, st1)"
      by (cases "submit_one ch scores k nonce st")
    obtain ls1 where l1: "log_lines st1 = log_lines st @ ls1"
      using submit_one_log[of ch scores k nonce st] one by auto
    show ?thesis
    proof (cases r)
      case None
      have eq: "submit_loop ch scores (k # ids) nonce st = submit_loop ch scores ids (nonce + 1) st1"
        using False one None by simp
      obtain ls2 where "log_lines (snd (submit_loop ch scores ids (nonce + 1) st1)) = log_lines st1 @ ls2"
        using "2.IH"(2)[OF False one[symmetric] None] by auto
      then show ?thesis using eq l1 by simp
    next
      case (Some e)
      have "submit_loop ch scores (k # ids) nonce st = (Some e, st1)"
        using False one Some by simp
      then show ?thesis using l1 by simp
    qed
  qed
qed

lemma submit_loop_confirms:
  "submit_loop ch scores ids nonce st = (None, st') \<Longrightarrow> i \<in> set ids \<Longrightarrow> i < 5 \<Longrightarrow>
     \<exists>nm. names_at i = Inr nm \<and> InfoUpdated nm \<in> set (log_lines st')"
proof (induction ch scores ids nonce st rule: submit_loop.induct)
  case (1 ch scores nonce st)
  then show ?case by simp
next
  case (2 ch scores k ids nonce st)
  show ?case
  proof (cases "k \<ge> 5")
    case True
    then show ?thesis using 2 by auto
  next
    case False
    obtain r st1 where one: "submit_one ch scores k nonce st = (r, st1)"
      by (cases "submit_one ch scores k nonce st")
    have r: "r = None" using "2.prems"(1) False one by (cases r) simp_all
    have eq: "submit_loop ch scores ids (nonce + 1) st1 = (None, st')"
      using "2.prems"(1) False one r by simp
    show ?thesis
    proof (cases "i = k")
      case True
      obtain nm where nm: "names_at k = Inr nm" "InfoUpdated nm \<in> set (log_lines st1)"
        using submit_one_confirms one r by blast
      obtain ls where "log_lines st' = log_lines st1 @ ls"
        using submit_loop_log[of ch scores ids "nonce + 1" st1] eq by auto
      then show ?thesis using nm True by auto
    next
      case ne: False
      then have "i \<in> set ids" using "2.prems"(2) by simp
      then show ?thesis
        using "2.IH"(2)[OF False one[symmetric] r eq] "2.prems"(3) by simp
    qed
  qed
qed

lemma failure_stops_loop:
  assumes "submit_loop ch scores (pre @ [k]) nonce st = (Some e, st')"
  shows "submit_loop ch scores (pre @ k # post) nonce st = (Some e, st')
         \<and> (\<forall>c\<in>set (client_calls st').
               c \<in> set (client_calls st) \<or> c = GasPrice
               \<or> (\<exists>i\<in>set pre \<union> {k}. call_category c = Some i))"
proof
  show "submit_loop ch scores (pre @ k # post) nonce st = (Some e, st')"
    using submit_loop_prefix[OF assms, of post] by simp
next
  show "\<forall>c\<in>set (client_calls st').
          c \<in> set (client_calls st) \<or> c = GasPrice
          \<or> (\<exists>i\<in>set pre \<union> {k}. call_category c = Some i)"
  proof
    fix c assume "c \<in> set (client_calls st')"
    then have "c \<in> set (client_calls (snd (submit_loop ch scores (pre @ [k]) nonce st)))"
      using assms by simp
    from submit_loop_calls[OF this]
    show "c \<in> set (client_calls st) \<or> c = GasPrice
          \<or> (\<exists>i\<in>set pre \<union> {k}. call_category c = Some i)"
      by auto
  qed
qed

lemma perform_raises:
  "perform ch cs st = (Some e, st') \<Longrightarrow> \<exists>before c. raises ch before c = Some e"
proof (induction cs arbitrary: st)
  case Nil
  then show ?case by simp
next
  case (Cons c cs)
  show ?case
  proof (cases "raises ch (client_calls st) c")
    case None
    then show ?thesis using Cons by simp
  next
    case (Some e')
    then have "e' = e" using Cons.prems by simp
    then show ?thesis using Some by blast
  qed
qed

lemma submit_one_raises:
  assumes "submit_one ch scores k nonce st = (Some e, st')"
  shows "is_Exception e \<or> (\<exists>before c. raises ch before c = Some e)"
proof (cases "dict_get scores k")
  case (Inl e')
  then show ?thesis using assms by (auto simp: submit_one_def dict_get_def split: option.splits)
next
  case (Inr v)
  show ?thesis
  proof (cases "names_at k")
    case (Inl e')
    then show ?thesis
      using assms Inr by (auto simp: submit_one_def names_at_def Let_def split: if_splits)
  next
    case nm: (Inr nm)
    define t where "t = \<lparr>tx_id = k, tx_score = max 0 (min 1000 v), tx_nonce = nonce\<rparr>"
    define cs where "cs = [UpdateSubIndex k (max 0 (min 1000 v)), GasPrice, BuildTransaction t,
                           SignTransaction t, SendRawTransaction t, WaitForReceipt t]"
    define st0 where
      "st0 = st\<lparr>log_lines := log_lines st @ [InfoSubmitting nm (max 0 (min 1000 v))]\<rparr>"
    obtain r st1 where p: "perform ch cs st0 = (r, st1)" by (cases "perform ch cs st0")
    have "submit_one ch scores k nonce st
            = (case r of Some e \<Rightarrow> (Some e, st1)
               | None \<Rightarrow> (None, st1\<lparr>log_lines := log_lines st1 @ [InfoUpdated nm]\<rparr>))"
      using Inr nm p by (simp add: submit_one_def Let_def cs_def t_def st0_def)
    then have "r = Some e" using assms by (cases r) simp_all
    then show ?thesis using perform_raises p by blast
  qed
qed

lemma submit_loop_raises:
  "submit_loop ch scores ids nonce st = (Some e, st') \<Longrightarrow>
     is_Exception e \<or> (\<exists>before c. raises ch before c = Some e)"
proof (induction ch scores ids nonce st rule: submit_loop.induct)
  case (1 ch scores nonce st)
  then show ?case by simp
next
  case (2 ch scores k ids nonce st)
  show ?case
  proof (cases "k \<ge> 5")
    case True
    then show ?thesis using 2 by simp
  next
    case False
    obtain r st1 where one: "submit_one ch scores k nonce st = (r, st1)"
      by (cases "submit_one ch scores k nonce st")
    show ?thesis
    proof (cases r)
      case None
      have "submit_loop ch scores ids (nonce + 1) st1 = (Some e, st')"
        using "2.prems" False one None by simp
      then show ?thesis using "2.IH"(2)[OF False one[symmetric] None] by simp
    next
      case (Some e')
      then have "e' = e" using "2.prems" False one by simp
      then show ?thesis using submit_one_raises one Some by blast
    qed
  qed
qed

lemma submit_try_raises:
  assumes "submit_try config ch scores st = (Some e, st')"
  shows "is_Exception e \<or> (\<exists>before c. raises ch before c = Some e)"
proof -
  define cs where "cs = [ImportWeb3, Connect (rpc_url config),
     FromKey (reporter_private_key config), Contract (oracle_address config),
     GetTransactionCount]"
  obtain r st1 where p: "perform ch cs st = (r, st1)" by (cases "perform ch cs st")
  show ?thesis
  proof (cases r)
    case None
    then have "submit_loop ch scores (sort (map fst scores)) (transaction_count ch) st1
                 = (Some e, st')"
      using assms p by (simp add: submit_try_def cs_def)
    then show ?thesis by (rule submit_loop_raises)
  next
    case (Some e')
    then have "e' = e" using assms p by (simp add: submit_try_def cs_def)
    then show ?thesis using perform_raises p Some by blast
  qed
qed

lemma submit_try_log:
  "\<exists>ls. log_lines (snd (submit_try config ch scores st)) = log_lines st @ ls"
proof -
  define cs where "cs = [ImportWeb3, Connect (rpc_url config),
     FromKey (reporter_private_key config), Contract (oracle_address config),
     GetTransactionCount]"
  obtain r st1 where p: "perform ch cs st = (r, st1)" by (cases "perform ch cs st")
  have l: "log_lines st1 = log_lines st" using perform_log[of ch cs st] p by simp
  show ?thesis
  proof (cases r)
    case None
    then have "submit_try config ch scores st
                 = submit_loop ch scores (sort (map fst scores)) (transaction_count ch) st1"
      using p by (simp add: submit_try_def cs_def)
    then show ?thesis
      using submit_loop_log[of ch scores "sort (map fst scores)" "transaction_count ch" st1] l
      by simp
  next
    case (Some e')
    then have "submit_try config ch scores st = (Some e', st1)"
      using p by (simp add: submit_try_def cs_def)
    then show ?thesis using l by simp
  qed
qed

subsection \<open>Pipeline driver: the off-chain composite\<close>

lemma off_chain_composite_five:
  "off_chain_composite [(0, s0), (1, s1), (2, s2), (3, s3), (4, s4)]
     = (s0 * 2000 + s1 * 1500 + s2 * 2000 + s3 * 1500 + s4 * 1500) div 8500"
  by (simp add: off_chain_composite_def weights_def upt_rec numeral_eq_Suc)

lemma sort_five:
  "sort [(0::int, s0::int), (1, s1), (2, s2), (3, s3), (4, s4)]
     = [(0, s0), (1, s1), (2, s2), (3, s3), (4, s4)]"
  by simp

lemma sort_keys_five: "sort [0::int, 1, 2, 3, 4] = [0, 1, 2, 3, 4]"
  by simp

lemma names_at_five:
  "names_at 0 = Inr ''Global Peace''" "names_at 1 = Inr ''Charitable Giving''"
  "names_at 2 = Inr ''Social Sentiment''" "names_at 3 = Inr ''Environmental Care''"
  "names_at 4 = Inr ''Community Wellness''"
  by (simp_all add: names_at_def names_def)

lemma dict_get_five:
  "dict_get [(0, s0), (1, s1), (2, s2), (3, s3), (4, s4)] 0 = Inr s0"
  "dict_get [(0, s0), (1, s1), (2, s2), (3, s3), (4, s4)] 1 = Inr s1"
  "dict_get [(0, s0), (1, s1), (2, s2), (3, s3), (4, s4)] 2 = Inr s2"
  "dict_get [(0, s0), (1, s1), (2, s2), (3, s3), (4, s4)] 3 = Inr s3"
  "dict_get [(0, s0), (1, s1), (2, s2), (3, s3), (4, s4)] 4 = Inr s4"
  by (simp_all add: dict_get_def)

lemma submit_scores_dry_five:
  "submit_scores config ch [(0, s0), (1, s1), (2, s2), (3, s3), (4, s4)] True st
     = (None, st\<lparr>log_lines := log_lines st @
          [InfoDryRunHeader, InfoScore ''Global Peace'' s0, InfoScore ''Charitable Giving'' s1,
           InfoScore ''Social Sentiment'' s2, InfoScore ''Environmental Care'' s3,
           InfoScore ''Community Wellness'' s4]\<rparr>)"
  by (simp add: submit_scores_def sort_five names_at_five)

lemma log_scores_five:
  "log_scores [(0, s0), (1, s1), (2, s2), (3, s3), (4, s4)] st
     = (None, st\<lparr>log_lines := log_lines st @
          [InfoNotSubmittedHeader,
           InfoScore ''Global Peace'' s0, InfoScore ''Charitable Giving'' s1,
           InfoScore ''Social Sentiment'' s2, InfoScore ''Environmental Care'' s3,
           InfoScore ''Community Wellness'' s4]\<rparr>)"
  by (simp add: log_scores_def sort_five names_at_five)

text \<open>
  With the five keys 0 to 4, the submitter appends to the log, and the only exception
  that leaves it is one the chain client raised in live mode that is not an instance
  of \<^verbatim>\<open>Exception\<close>.
\<close>

lemma submit_scores_five_log:
  "\<exists>ls. log_lines (snd (submit_scores config ch [(0, s0), (1, s1), (2, s2), (3, s3), (4, s4)]
                            dry_run st)) = log_lines st @ ls"
proof (cases dry_run)
  case True
  then show ?thesis by (simp add: submit_scores_dry_five)
next
  case False
  obtain r st1 where t:
    "submit_try config ch [(0, s0), (1, s1), (2, s2), (3, s3), (4, s4)] st = (r, st1)"
    by (cases "submit_try config ch [(0, s0), (1, s1), (2, s2), (3, s3), (4, s4)] st")
  obtain ls where l: "log_lines st1 = log_lines st @ ls"
    using submit_try_log[of config ch "[(0, s0), (1, s1), (2, s2), (3, s3), (4, s4)]" st] t
    by auto
  show ?thesis
    using False t l by (cases r) (simp_all add: submit_scores_def log_scores_five)
qed

lemma submit_scores_five_raises:
  assumes "fst (submit_scores config ch [(0, s0), (1, s1), (2, s2), (3, s3), (4, s4)]
                  dry_run st) = Some e"
  shows "\<not> dry_run \<and> \<not> is_Exception e \<and> (\<exists>before c. raises ch before c = Some e)"
proof (cases dry_run)
  case True
  then show ?thesis using assms by (simp add: submit_scores_dry_five)
next
  case False
  obtain r st1 where t:
    "submit_try config ch [(0, s0), (1, s1), (2, s2), (3, s3), (4, s4)] st = (r, st1)"
    by (cases "submit_try config ch [(0, s0), (1, s1), (2, s2), (3, s3), (4, s4)] st")
  show ?thesis
  proof (cases r)
    case None
    then show ?thesis using assms False t by (simp add: submit_scores_def)
  next
    case (Some e')
    have i: "is_ImportError e' \<Longrightarrow> is_Exception e'" by (cases e') simp_all
    have e: "e' = e \<and> \<not> is_Exception e"
      using assms False t Some i
      by (cases "is_Exception e'"; cases "is_ImportError e'")
         (simp_all add: submit_scores_def log_scores_five)
    then show ?thesis using submit_try_raises t Some False by blast
  qed
qed

text \<open>
  Claim C5: in every cycle, dry or live and whatever the chain client does, the driver
  computes the composite as the floor division by 8500 of the five category scores
  weighted by 2000, 1500, 2000, 1500 and 1500, and logs it first. The cycle returns
  a report with that composite, unless it is a live cycle in which the chain client
  raised an exception that is not an instance of \<^verbatim>\<open>Exception\<close>, which then leaves the
  driver. The witness is the live cycle with the scores 800, 600, 900, 400 and 700 and a
  client that confirms every update: its composite is 700.
\<close>

theorem run_once_composite:
  "(\<exists>ls. log_lines (snd (run_once config agg ch now dry_run))
           = InfoComposite ((fst (score_peace agg) * 2000 + fst (score_charity agg) * 1500
        + fst (score_social agg) * 2000 + fst (score_environment agg) * 1500
        + fst (score_wellness agg) * 1500) div 8500) # ls)
   \<and> ((\<exists>rep. fst (run_once config agg ch now dry_run) = Inr rep
            \<and> rep_composite rep = (fst (score_peace agg) * 2000 + fst (score_charity agg) * 1500
        + fst (score_social agg) * 2000 + fst (score_environment agg) * 1500
        + fst (score_wellness agg) * 1500) div 8500)
       \<or> (\<exists>e before c. fst (run_once config agg ch now dry_run) = Inl e
            \<and> \<not> dry_run \<and> \<not> is_Exception e \<and> raises ch before c = Some e))"
proof -
  define scores where
    "scores = [(0::int, fst (score_peace agg)), (1, fst (score_charity agg)),
               (2, fst (score_social agg)), (3, fst (score_environment agg)),
               (4, fst (score_wellness agg))]"
  define F where "F = (fst (score_peace agg) * 2000 + fst (score_charity agg) * 1500
        + fst (score_social agg) * 2000 + fst (score_environment agg) * 1500
        + fst (score_wellness agg) * 1500) div 8500"
  define st0 where
    "st0 = \<lparr>log_lines = [InfoComposite F,
                          if \<not> dry_run then InfoSubmittingToOracle else InfoDryRunNotSubmitting],
            client_calls = []\<rparr>"
  obtain r st where s: "submit_scores config ch scores dry_run st0 = (r, st)"
    by (cases "submit_scores config ch scores dry_run st0")
  obtain ls where l: "log_lines st = log_lines st0 @ ls"
    using submit_scores_five_log[of config ch "fst (score_peace agg)" "fst (score_charity agg)"
        "fst (score_social agg)" "fst (score_environment agg)" "fst (score_wellness agg)"
        dry_run st0] s
    unfolding scores_def by auto
  have c: "off_chain_composite scores = F"
    unfolding scores_def F_def by (rule off_chain_composite_five)
  show ?thesis
  proof (cases r)
    case None
    have "\<exists>rep. run_once config agg ch now dry_run
                  = (Inr rep, st\<lparr>log_lines := log_lines st @ [InfoCycleComplete]\<rparr>)
                \<and> rep_composite rep = F"
      using s None c
      by (simp add: run_once_def Let_def scores_def[symmetric] st0_def[symmetric] F_def[symmetric])
    then show ?thesis
      using l unfolding F_def[symmetric] by (auto simp: st0_def)
  next
    case (Some e)
    have run: "run_once config agg ch now dry_run = (Inl e, st)"
      using s Some c
      by (simp add: run_once_def Let_def scores_def[symmetric] st0_def[symmetric] F_def[symmetric])
    have "\<not> dry_run \<and> \<not> is_Exception e \<and> (\<exists>before c. raises ch before c = Some e)"
      using submit_scores_five_raises[of config ch "fst (score_peace agg)"
          "fst (score_charity agg)" "fst (score_social agg)" "fst (score_environment agg)"
          "fst (score_wellness agg)" dry_run st0 e] s Some
      unfolding scores_def by simp
    then show ?thesis
      using run l unfolding F_def[symmetric] by (auto simp: st0_def)
  qed
qed


lemma submit_scores_live_five:
  "submit_scores Config_default chain_ok [(0, 800), (1, 600), (2, 900), (3, 400), (4, 700)] False
      \<lparr>log_lines = l, client_calls = []\<rparr>
   = (None, \<lparr>log_lines = l @
         [InfoSubmitting ''Global Peace'' 800, InfoUpdated ''Global Peace'',
          InfoSubmitting ''Charitable Giving'' 600, InfoUpdated ''Charitable Giving'',
          InfoSubmitting ''Social Sentiment'' 900, InfoUpdated ''Social Sentiment'',
          InfoSubmitting ''Environmental Care'' 400, InfoUpdated ''Environmental Care'',
          InfoSubmitting ''Community Wellness'' 700, InfoUpdated ''Community Wellness''],
       client_calls =
         [ImportWeb3, Connect [], FromKey [], Contract [], GetTransactionCount,
          UpdateSubIndex 0 800, GasPrice,
          BuildTransaction \<lparr>tx_id = 0, tx_score = 800, tx_nonce = 7\<rparr>,
          SignTransaction \<lparr>tx_id = 0, tx_score = 800, tx_nonce = 7\<rparr>,
          SendRawTransaction \<lparr>tx_id = 0, tx_score = 800, tx_nonce = 7\<rparr>,
          WaitForReceipt \<lparr>tx_id = 0, tx_score = 800, tx_nonce = 7\<rparr>,
          UpdateSubIndex 1 600, GasPrice,
          BuildTransaction \<lparr>tx_id = 1, tx_score = 600, tx_nonce = 8\<rparr>,
          SignTransaction \<lparr>tx_id = 1, tx_score = 600, tx_nonce = 8\<rparr>,
          SendRawTransaction \<lparr>tx_id = 1, tx_score = 600, tx_nonce = 8\<rparr>,
          WaitForReceipt \<lparr>tx_id = 1, tx_score = 600, tx_nonce = 8\<rparr>,
          UpdateSubIndex 2 900, GasPrice,
          BuildTransaction \<lparr>tx_id = 2, tx_score = 900, tx_nonce = 9\<rparr>,
          SignTransaction \<lparr>tx_id = 2, tx_score = 900, tx_nonce = 9\<rparr>,
          SendRawTransaction \<lparr>tx_id = 2, tx_score = 900, tx_nonce = 9\<rparr>,
          WaitForReceipt \<lparr>tx_id = 2, tx_score = 900, tx_nonce = 9\<rparr>,
          UpdateSubIndex 3 400, GasPrice,
          BuildTransaction \<lparr>tx_id = 3, tx_score = 400, tx_nonce = 10\<rparr>,
          SignTransaction \<lparr>tx_id = 3, tx_score = 400, tx_nonce = 10\<rparr>,
          SendRawTransaction \<lparr>tx_id = 3, tx_score = 400, tx_nonce = 10\<rparr>,
          WaitForReceipt \<lparr>tx_id = 3, tx_score = 400, tx_nonce = 10\<rparr>,
          UpdateSubIndex 4 700, GasPrice,
          BuildTransaction \<lparr>tx_id = 4, tx_score = 700, tx_nonce = 11\<rparr>,
          SignTransaction \<lparr>tx_id = 4, tx_score = 700, tx_nonce = 11\<rparr>,
          SendRawTransaction \<lparr>tx_id = 4, tx_score = 700, tx_nonce = 11\<rparr>,
          WaitForReceipt \<lparr>tx_id = 4, tx_score = 700, tx_nonce = 11\<rparr>]\<rparr>)"
  by (simp add: Let_def submit_scores_def submit_try_def submit_one_def chain_ok_def
      Config_default_def
      sort_five sort_keys_five names_at_five dict_get_five)

theorem run_once_composite_witness:
  "fst (run_once Config_default results_example chain_ok ''2026-01-01T00:00:00'' False)
     = Inr \<lparr>rep_timestamp = ''2026-01-01T00:00:00'', rep_composite = 700,
            rep_scores = [(''0'', 800), (''1'', 600), (''2'', 900), (''3'', 400), (''4'', 700)],
            rep_sources = [(''peace'', statuses Map.empty), (''charity'', statuses Map.empty),
                           (''social'', statuses Map.empty),
                           (''environment'', statuses Map.empty),
                           (''wellness'', statuses Map.empty)],
            rep_available_sources = available_sources Config_default\<rparr>
   \<and> hd (log_lines (snd (run_once Config_default results_example chain_ok
                            ''2026-01-01T00:00:00'' False))) = InfoComposite 700
   \<and> (800 * 2000 + 600 * 1500 + 900 * 2000 + 400 * 1500 + 700 * 1500) div 8500 = (700::int)"
  using
    run_once_composite
      [of Config_default results_example chain_ok "''2026-01-01T00:00:00''" False]
  by (simp add: run_once_def Let_def results_example_def submit_scores_live_five
      off_chain_composite_five)

subsection \<open>Submission: dry run\<close>

lemma log_each_score_calls:
  "client_calls (snd (log_each_score xs st)) = client_calls st"
  by (induction xs st rule: log_each_score.induct) (auto split: sum.splits)

text \<open>
  Claim C6, as stated, fails in its second half: the report has no field for the status
  of the submission. The report of a dry run is the report of the live run in which all
  five updates were confirmed.
\<close>

theorem report_same_in_dry_run_counterexample:
  "fst (run_once Config_default results_example chain_ok ''2026-01-01T00:00:00'' True)
     = fst (run_once Config_default results_example chain_ok ''2026-01-01T00:00:00'' False)
   \<and> InfoUpdated ''Global Peace''
       \<in> set (log_lines (snd (run_once Config_default results_example chain_ok
                                  ''2026-01-01T00:00:00'' False)))
   \<and> InfoUpdated ''Global Peace''
       \<notin> set (log_lines (snd (run_once Config_default results_example chain_ok
                                  ''2026-01-01T00:00:00'' True)))"
  by (simp add: run_once_def Let_def results_example_def submit_scores_dry_five
      submit_scores_live_five off_chain_composite_five)

text \<open>
  Claim C6, amended: with dry-run enabled the submitter makes no call to the chain
  client, whatever the configuration, the client and the scores are; a dry-run cycle
  makes no client call, writes the five scores to the log under the dry-run header, and
  returns a report made of the timestamp, the composite, the scores, the status of each
  source and the available sources, with nothing about the submission.
\<close>

theorem dry_run_no_chain_call:
  "client_calls (snd (submit_scores config ch scores True st)) = client_calls st
   \<and> run_once config agg ch now True
     = (Inr \<lparr>rep_timestamp = now,
             rep_composite =
               (fst (score_peace agg) * 2000 + fst (score_charity agg) * 1500
                + fst (score_social agg) * 2000 + fst (score_environment agg) * 1500
                + fst (score_wellness agg) * 1500) div 8500,
             rep_scores = [(''0'', fst (score_peace agg)), (''1'', fst (score_charity agg)),
                           (''2'', fst (score_social agg)), (''3'', fst (score_environment agg)),
                           (''4'', fst (score_wellness agg))],
             rep_sources = [(''peace'', statuses (snd (score_peace agg))),
                            (''charity'', statuses (snd (score_charity agg))),
                            (''social'', statuses (snd (score_social agg))),
                            (''environment'', statuses (snd (score_environment agg))),
                            (''wellness'', statuses (snd (score_wellness agg)))],
             rep_available_sources = available_sources config\<rparr>,
        \<lparr>log_lines =
           [InfoComposite
              ((fst (score_peace agg) * 2000 + fst (score_charity agg) * 1500
                + fst (score_social agg) * 2000 + fst (score_environment agg) * 1500
                + fst (score_wellness agg) * 1500) div 8500),
            InfoDryRunNotSubmitting, InfoDryRunHeader,
            InfoScore ''Global Peace'' (fst (score_peace agg)),
            InfoScore ''Charitable Giving'' (fst (score_charity agg)),
            InfoScore ''Social Sentiment'' (fst (score_social agg)),
            InfoScore ''Environmental Care'' (fst (score_environment agg)),
            InfoScore ''Community Wellness'' (fst (score_wellness agg)),
            InfoCycleComplete],
         client_calls = []\<rparr>)"
proof
  show "client_calls (snd (submit_scores config ch scores True st)) = client_calls st"
    by (simp add: submit_scores_def log_each_score_calls)
next
  show "run_once config agg ch now True
     = (Inr \<lparr>rep_timestamp = now,
             rep_composite =
               (fst (score_peace agg) * 2000 + fst (score_charity agg) * 1500
                + fst (score_social agg) * 2000 + fst (score_environment agg) * 1500
                + fst (score_wellness agg) * 1500) div 8500,
             rep_scores = [(''0'', fst (score_peace agg)), (''1'', fst (score_charity agg)),
                           (''2'', fst (score_social agg)), (''3'', fst (score_environment agg)),
                           (''4'', fst (score_wellness agg))],
             rep_sources = [(''peace'', statuses (snd (score_peace agg))),
                            (''charity'', statuses (snd (score_charity agg))),
                            (''social'', statuses (snd (score_social agg))),
                            (''environment'', statuses (snd (score_environment agg))),
                            (''wellness'', statuses (snd (score_wellness agg)))],
             rep_available_sources = available_sources config\<rparr>,
        \<lparr>log_lines =
           [InfoComposite
              ((fst (score_peace agg) * 2000 + fst (score_charity agg) * 1500
                + fst (score_social agg) * 2000 + fst (score_environment agg) * 1500
                + fst (score_wellness agg) * 1500) div 8500),
            InfoDryRunNotSubmitting, InfoDryRunHeader,
            InfoScore ''Global Peace'' (fst (score_peace agg)),
            InfoScore ''Charitable Giving'' (fst (score_charity agg)),
            InfoScore ''Social Sentiment'' (fst (score_social agg)),
            InfoScore ''Environmental Care'' (fst (score_environment agg)),
            InfoScore ''Community Wellness'' (fst (score_wellness agg)),
            InfoCycleComplete],
         client_calls = []\<rparr>)"
    by (simp add: run_once_def Let_def submit_scores_dry_five off_chain_composite_five)
qed

theorem dry_run_no_chain_call_witness:
  "client_calls (snd (submit_scores Config_default chain_fail2
       [(0, 800), (1, 600), (2, 900), (3, 400), (4, 700)] True
       \<lparr>log_lines = [], client_calls = []\<rparr>)) = []
   \<and> snd (run_once Config_default results_example chain_fail2 ''2026-01-01T00:00:00'' True)
     = \<lparr>log_lines = [InfoComposite 700, InfoDryRunNotSubmitting, InfoDryRunHeader,
                     InfoScore ''Global Peace'' 800, InfoScore ''Charitable Giving'' 600,
                     InfoScore ''Social Sentiment'' 900, InfoScore ''Environmental Care'' 400,
                     InfoScore ''Community Wellness'' 700, InfoCycleComplete],
         client_calls = []\<rparr>"
  using dry_run_no_chain_call
    [of Config_default chain_fail2 "[(0, 800), (1, 600), (2, 900), (3, 400), (4, 700)]"
        "\<lparr>log_lines = [], client_calls = []\<rparr>" results_example "''2026-01-01T00:00:00''"]
  by (simp add: results_example_def)

subsection \<open>Submission: a failing update\<close>

text \<open>
  Claim C2 (after the update of category k fails, no later category is attempted,
  categories below k are reported as submitted and categories k to 4 as unsent),
  evaluated where the code departs from it: the scores 800, 600, 900, 400, 700 and a
  client on which sending the update of category 2 times out. Categories 3 and 4 are
  not attempted, and categories 0 and 1 are confirmed in the log; but \<^verbatim>\<open>_log_scores\<close>
  then lists all five categories under its header of scores not submitted, categories
  0 and 1 among them.
\<close>

theorem submit_scores_failure_at_2:
  "submit_scores Config_default chain_fail2
     [(0, 800), (1, 600), (2, 900), (3, 400), (4, 700)] False
     \<lparr>log_lines = [], client_calls = []\<rparr>
   = (None,
      \<lparr>log_lines =
         [InfoSubmitting ''Global Peace'' 800, InfoUpdated ''Global Peace'',
          InfoSubmitting ''Charitable Giving'' 600, InfoUpdated ''Charitable Giving'',
          InfoSubmitting ''Social Sentiment'' 900,
          ErrorSubmissionFailed ''timeout'',
          InfoNotSubmittedHeader,
          InfoScore ''Global Peace'' 800, InfoScore ''Charitable Giving'' 600,
          InfoScore ''Social Sentiment'' 900, InfoScore ''Environmental Care'' 400,
          InfoScore ''Community Wellness'' 700],
       client_calls =
         [ImportWeb3, Connect [], FromKey [], Contract [], GetTransactionCount,
          UpdateSubIndex 0 800, GasPrice,
          BuildTransaction \<lparr>tx_id = 0, tx_score = 800, tx_nonce = 7\<rparr>,
          SignTransaction \<lparr>tx_id = 0, tx_score = 800, tx_nonce = 7\<rparr>,
          SendRawTransaction \<lparr>tx_id = 0, tx_score = 800, tx_nonce = 7\<rparr>,
          WaitForReceipt \<lparr>tx_id = 0, tx_score = 800, tx_nonce = 7\<rparr>,
          UpdateSubIndex 1 600, GasPrice,
          BuildTransaction \<lparr>tx_id = 1, tx_score = 600, tx_nonce = 8\<rparr>,
          SignTransaction \<lparr>tx_id = 1, tx_score = 600, tx_nonce = 8\<rparr>,
          SendRawTransaction \<lparr>tx_id = 1, tx_score = 600, tx_nonce = 8\<rparr>,
          WaitForReceipt \<lparr>tx_id = 1, tx_score = 600, tx_nonce = 8\<rparr>,
          UpdateSubIndex 2 900, GasPrice,
          BuildTransaction \<lparr>tx_id = 2, tx_score = 900, tx_nonce = 9\<rparr>,
          SignTransaction \<lparr>tx_id = 2, tx_score = 900, tx_nonce = 9\<rparr>,
          SendRawTransaction \<lparr>tx_id = 2, tx_score = 900, tx_nonce = 9\<rparr>]\<rparr>)"
  by (simp add: Let_def submit_scores_def submit_try_def submit_one_def log_scores_def
      chain_fail2_def Config_default_def sort_five sort_keys_five names_at_five dict_get_five)

text \<open>
  The same for every failure the second handler catches, whatever the scores and however
  many updates the state \<open>st'\<close> at the failure has confirmed: all five categories are
  listed after the header of scores not submitted.
\<close>

lemma live_failure_lists_all_five:
  assumes "submit_try config ch [(0, s0), (1, s1), (2, s2), (3, s3), (4, s4)] st = (Some e, st')"
    and "is_Exception e" and "\<not> is_ImportError e"
  shows "submit_scores config ch [(0, s0), (1, s1), (2, s2), (3, s3), (4, s4)] False st
           = (None, st'\<lparr>log_lines := log_lines st' @
                [ErrorSubmissionFailed (str_exn e), InfoNotSubmittedHeader,
                 InfoScore ''Global Peace'' s0, InfoScore ''Charitable Giving'' s1,
                 InfoScore ''Social Sentiment'' s2, InfoScore ''Environmental Care'' s3,
                 InfoScore ''Community Wellness'' s4]\<rparr>)"
  using assms by (simp add: submit_scores_def log_scores_def sort_five names_at_five)


end
